theory Spec2Isabelle
  imports Complex_Main "HOL-Library.Char_ord" "HOL-Library.List_Lexorder"
begin

section \<open>Data model\<close>

text \<open>
  The gate resizer of \<^verbatim>\<open>Resizer.cc\<close>. The C++ \<^verbatim>\<open>float\<close> quantities
  (capacitance, slew, delay, required time) are modelled as reals. Their arithmetic is
  exact, except in the loop of \<^verbatim>\<open>findTargetLoad\<close>: whether that loop returns
  depends on the rounding of its additions, so there every operation is rounded as the
  machine rounds it.
  Pointers to library and netlist objects are modelled by the objects' names; a pointer
  that may be null is an \<open>option\<close>.
\<close>

type_synonym Slew = real
type_synonym Required = real
type_synonym ArcDelay = real
type_synonym Level = int
type_synonym Net = string
type_synonym Cell = string

text \<open>A pin is an instance name and a port name.\<close>

type_synonym Pin = "string \<times> string"

datatype TransRiseFall = rise | fall

datatype MinMax = MinMax_min | MinMax_max

datatype DefPt = DefPt (pt_x: int) (pt_y: int)

text \<open>
  A timing arc. \<open>model\<close> is the arc's \<^verbatim>\<open>GateTimingModel\<close>, \<open>None\<close> when the
  dynamic cast of \<^verbatim>\<open>arc->model()\<close> fails; applied to an input slew and a load
  capacitance it yields the arc delay and the output slew.
\<close>

record TimingArc =
  fromTrans :: TransRiseFall
  toTrans :: TransRiseFall
  model :: "(Slew \<Rightarrow> real \<Rightarrow> ArcDelay \<times> Slew) option"

record TimingArcSet =
  arc_set_to :: string
  arcs :: "TimingArc list"

text \<open>
  A library port. \<open>port_cell\<close> names the cell of the port
  (\<^verbatim>\<open>port->libertyCell()\<close>) and \<open>cell_arc_sets\<close> are the timing arc sets of that
  cell, as \<^verbatim>\<open>LibertyCellTimingArcSetIterator\<close> enumerates them.
\<close>

record LibertyPort =
  port_name :: string
  port_cell :: Cell
  cell_arc_sets :: "TimingArcSet list"
  capacitance :: "TransRiseFall \<Rightarrow> MinMax \<Rightarrow> real"
  capacitanceLimit :: "MinMax \<Rightarrow> real \<times> bool"
  port_slewLimit :: "MinMax \<Rightarrow> real \<times> bool"

record LibertyCell =
  cell_name :: Cell
  bufferPorts :: "LibertyPort \<times> LibertyPort"
  equivCells :: "Cell list option"

record Instance =
  inst_name :: string
  inst_cell :: Cell
  inst_location :: "DefPt option"

record Vertex =
  level :: Level
  vertex_pin :: Pin

text \<open>
  Modelled from the spec: the Steiner tree of a net (\<^verbatim>\<open>SteinerTree.cc\<close> is not among
  the sources), "a binary tree whose leaves correspond to the net's pins and whose internal
  nodes are Steiner points, each with a location". A \<^verbatim>\<open>SteinerPt\<close> is modelled by the
  subtree it roots; \<open>null_pt\<close> is \<^verbatim>\<open>SteinerTree::null_pt\<close>.
\<close>

datatype SteinerPt =
  null_pt
| Pt (tree_pin: "Pin option") (tree_location: DefPt) (tree_left: SteinerPt) (tree_right: SteinerPt)

datatype Type = sink | junction | wire | buffer

datatype RebufferOption =
  RebufferOption (type: Type) (cap: real) (required: Required) (loadPin: "Pin option")
    (location: DefPt) (ref: "RebufferOption option") (ref2: "RebufferOption option")

type_synonym RebufferOptionSeq = "RebufferOption list"

text \<open>
  The netlist: the nets and instances of the top instance, the net of every pin, and the
  queries the resizer makes. A data member \<^verbatim>\<open>name_\<close> of the source is the field
  \<open>m_name\<close> of its record, so \<^verbatim>\<open>network_\<close> is \<open>m_network\<close>.
\<close>

record Network =
  net_names :: "Net list"
  instances :: "Instance list"
  pin_net :: "Pin \<Rightarrow> Net option"
  term_net :: "Pin \<Rightarrow> Net option"
  isTopLevelPort :: "Pin \<Rightarrow> bool"
  isLoad :: "Pin \<Rightarrow> bool"
  isDriver :: "Pin \<Rightarrow> bool"
  pathName :: "Pin \<Rightarrow> string"
  libertyPort :: "Pin \<Rightarrow> LibertyPort option"
  instance_pins :: "string \<Rightarrow> (Pin \<times> bool) list"
  libertyCells :: "Cell \<Rightarrow> LibertyCell option"
  isLefCell :: "Cell \<Rightarrow> bool"
  lefCell :: "Cell \<Rightarrow> Cell option"
  dbuToMeters :: "int \<Rightarrow> real"

text \<open>
  The timing engine \<^verbatim>\<open>Sta\<close> that \<^verbatim>\<open>Resizer\<close> extends, as far as the resizer
  uses it: the timing graph, the constraints, the delay calculator, the Steiner tree
  builder, the fuzzy comparisons and the constant \<^verbatim>\<open>INF\<close> (here \<open>INF_float\<close>). A
  limit query returns the pair of its two out-parameters, the value and whether the limit
  exists. \<open>pinRequired\<close> is the required time that \<^verbatim>\<open>Resizer::pinRequired\<close> reads
  from the paths of the search.
\<close>

record Sta =
  m_network :: Network
  graph_vertices :: "Vertex list"
  graph_slew :: "Pin \<Rightarrow> TransRiseFall \<Rightarrow> Slew"
  loadCap :: "Pin \<Rightarrow> real"
  pinRequired :: "Pin \<Rightarrow> Required"
  isClock :: "Vertex \<Rightarrow> bool"
  sdc_slewLimit_cell :: "MinMax \<Rightarrow> real \<times> bool"
  sdc_slewLimit_port :: "Pin \<Rightarrow> MinMax \<Rightarrow> real \<times> bool"
  sdc_slewLimit_pin :: "Pin \<Rightarrow> MinMax \<Rightarrow> real \<times> bool"
  arc_delay_calc_gateDelay :: "Cell \<Rightarrow> TimingArc \<Rightarrow> Slew \<Rightarrow> real \<Rightarrow> ArcDelay \<times> Slew"
  makeSteinerTree :: "Net option \<Rightarrow> SteinerPt option"
  fuzzyLess :: "real \<Rightarrow> real \<Rightarrow> bool"
  fuzzyGreater :: "real \<Rightarrow> real \<Rightarrow> bool"
  fuzzyInf :: "real \<Rightarrow> bool"
  INF_float :: real

record Resizer = Sta +
  m_corner :: "string option"
  m_wire_res :: real
  m_wire_cap :: real
  m_min_max :: MinMax
  m_target_load_map :: "Cell \<Rightarrow> real option"
  m_tgt_slews :: "TransRiseFall \<Rightarrow> Slew"
  m_level_drvr_verticies :: "Vertex list"
  m_level_drvr_verticies_valid :: bool
  m_unique_net_index :: int
  m_unique_buffer_index :: int
  m_resize_count :: int
  m_inserted_buffer_count :: int
  m_rebuffer_net_count :: int
  m_parasitic_nets :: "Net option list"

section \<open>Corner\<close>

definition initCorner :: "Resizer \<Rightarrow> string \<Rightarrow> Resizer" where
  "initCorner r corner = r\<lparr>m_corner := Some corner, m_min_max := MinMax_max\<rparr>"

section \<open>Violation detector\<close>


definition hasMaxCapViolation :: "Resizer \<Rightarrow> Pin \<Rightarrow> bool" where
  "hasMaxCapViolation r drvr_pin =
     (case libertyPort (m_network r) drvr_pin of
        Some port \<Rightarrow>
          (let load_cap = loadCap r drvr_pin;
               (cap_limit, exists) = capacitanceLimit port MinMax_max
           in exists \<and> load_cap > cap_limit)
      | None \<Rightarrow> False)"





section \<open>Capacitance of ports and pins\<close>

definition portCapacitance :: "Resizer \<Rightarrow> LibertyPort \<Rightarrow> real" where
  "portCapacitance r port =
     (let cap1 = capacitance port rise (m_min_max r);
          cap2 = capacitance port fall (m_min_max r)
      in max cap1 cap2)"

definition pinCapacitance :: "Resizer \<Rightarrow> Pin \<Rightarrow> real" where
  "pinCapacitance r pin =
     (case libertyPort (m_network r) pin of
        Some port \<Rightarrow> portCapacitance r port
      | None \<Rightarrow> 0)"

definition bufferInputCapacitance :: "Resizer \<Rightarrow> LibertyCell \<Rightarrow> real" where
  "bufferInputCapacitance r buffer_cell =
     (let (input, output) = bufferPorts buffer_cell in portCapacitance r input)"

section \<open>Levelizer\<close>

text \<open>\<^verbatim>\<open>stringLess\<close> is \<^verbatim>\<open>strcmp(a, b) < 0\<close>: the lexical order of the bytes.\<close>

definition stringLess :: "string \<Rightarrow> string \<Rightarrow> bool" where
  "stringLess a b = (a < b)"

definition VertexLevelLess :: "Network \<Rightarrow> Vertex \<Rightarrow> Vertex \<Rightarrow> bool" where
  "VertexLevelLess network vertex1 vertex2 =
     (let level1 = level vertex1; level2 = level vertex2
      in level1 < level2
         \<or> (level1 = level2
             \<and> stringLess (pathName network (vertex_pin vertex1))
                           (pathName network (vertex_pin vertex2))))"

text \<open>
  \<^verbatim>\<open>sort(seq, lt)\<close> is \<^verbatim>\<open>std::sort\<close>; it is modelled by insertion sort with
  the comparator.
\<close>

fun insert_seq :: "('a \<Rightarrow> 'a \<Rightarrow> bool) \<Rightarrow> 'a \<Rightarrow> 'a list \<Rightarrow> 'a list" where
  "insert_seq lt v [] = [v]"
| "insert_seq lt v (u # us) = (if lt u v then u # insert_seq lt v us else v # u # us)"

definition sort_seq :: "('a \<Rightarrow> 'a \<Rightarrow> bool) \<Rightarrow> 'a list \<Rightarrow> 'a list" where
  "sort_seq lt vs = foldr (insert_seq lt) vs []"

definition ensureLevelDrvrVerticies :: "Resizer \<Rightarrow> Resizer" where
  "ensureLevelDrvrVerticies r =
     (if \<not> m_level_drvr_verticies_valid r
      then r\<lparr>m_level_drvr_verticies :=
                sort_seq (VertexLevelLess (m_network r)) (graph_vertices r),
             m_level_drvr_verticies_valid := True\<rparr>
      else r)"

section \<open>Resizer pass\<close>

definition network_cell :: "Network \<Rightarrow> string \<Rightarrow> Cell option" where
  "network_cell network inst =
     map_option inst_cell (find (\<lambda>i. inst_name i = inst) (instances network))"

definition libertyCell :: "Network \<Rightarrow> string \<Rightarrow> LibertyCell option" where
  "libertyCell network inst =
     (case network_cell network inst of
        Some c \<Rightarrow> libertyCells network c
      | None \<Rightarrow> None)"

text \<open>
  \<^verbatim>\<open>singleOutputPin\<close>: the pins of the instance come with whether their direction is
  output; \<open>output\<close> is the output pin found so far.
\<close>

fun singleOutputPin_iter :: "(Pin \<times> bool) list \<Rightarrow> Pin option \<Rightarrow> Pin option" where
  "singleOutputPin_iter [] output = output"
| "singleOutputPin_iter ((pin, isOutput) # pins) output =
     (if isOutput
      then (case output of
              Some found \<Rightarrow> None
            | None \<Rightarrow> singleOutputPin_iter pins (Some pin))
      else singleOutputPin_iter pins output)"

definition singleOutputPin :: "string \<Rightarrow> Network \<Rightarrow> Pin option" where
  "singleOutputPin inst network = singleOutputPin_iter (instance_pins network inst) None"

definition replaceCell :: "Resizer \<Rightarrow> string \<Rightarrow> Cell \<Rightarrow> Resizer" where
  "replaceCell r inst to_cell =
     r\<lparr>m_network := (m_network r)\<lparr>instances :=
          map (\<lambda>i. if inst_name i = inst then i\<lparr>inst_cell := to_cell\<rparr> else i)
              (instances (m_network r))\<rparr>\<rparr>"

text \<open>
  \<^verbatim>\<open>(*target_load_map_)[target_cell]\<close>: a cell that is not a key of the map reads as
  0.
\<close>

definition target_load_of :: "Resizer \<Rightarrow> Cell \<Rightarrow> real" where
  "target_load_of r target_cell =
     (case m_target_load_map r target_cell of Some v \<Rightarrow> v | None \<Rightarrow> 0)"

text \<open>
  The loop over the equivalent cells of \<^verbatim>\<open>resizeToTargetSlew1\<close>; its state is
  \<open>(best_cell, best_ratio)\<close>. With a load of 0 the float ratio is infinite or not a
  number and never becomes the best ratio; the real quotient \<open>x / 0 = 0\<close> never does
  either.
\<close>

fun findBestCell :: "Resizer \<Rightarrow> real \<Rightarrow> Cell list \<Rightarrow> Cell option \<times> real \<Rightarrow> Cell option \<times> real" where
  "findBestCell r load_cap [] best = best"
| "findBestCell r load_cap (target_cell # cells) (best_cell, best_ratio) =
     (let target_load = target_load_of r target_cell;
          ratio = target_load / load_cap;
          ratio = (if ratio > 1 then 1 / ratio else ratio)
      in if ratio > best_ratio
         then findBestCell r load_cap cells (Some target_cell, ratio)
         else findBestCell r load_cap cells (best_cell, best_ratio))"

definition resizeToTargetSlew1 :: "Resizer \<Rightarrow> string \<Rightarrow> Resizer" where
  "resizeToTargetSlew1 r inst =
     (case libertyCell (m_network r) inst of
        None \<Rightarrow> r
      | Some cell \<Rightarrow>
          (case singleOutputPin inst (m_network r) of
             None \<Rightarrow> r
           | Some output \<Rightarrow>
               (let load_cap = loadCap r output in
                case equivCells cell of
                  None \<Rightarrow> r
                | Some equiv_cells \<Rightarrow>
                    (case fst (findBestCell r load_cap equiv_cells (None, 0)) of
                       None \<Rightarrow> r
                     | Some best_cell \<Rightarrow>
                         if best_cell \<noteq> cell_name cell
                         then
                           (if (case network_cell (m_network r) inst of
                                  Some c \<Rightarrow> isLefCell (m_network r) c
                                | None \<Rightarrow> False)
                            then (case lefCell (m_network r) best_cell of
                                    Some best_lef \<Rightarrow>
                                      (replaceCell r inst best_lef)
                                        \<lparr>m_resize_count := m_resize_count r + 1\<rparr>
                                  | None \<Rightarrow> r)
                            else (replaceCell r inst best_cell)
                                   \<lparr>m_resize_count := m_resize_count r + 1\<rparr>)
                         else r))))"

section \<open>Target load\<close>

text \<open>
  The arithmetic of \<^verbatim>\<open>float\<close> and \<^verbatim>\<open>double\<close>: a real is rounded to the nearest
  number \<open>m * 2 ^ e\<close> with an integer \<open>m\<close> of at most \<open>p\<close> bits, ties going to the
  even \<open>m\<close>. \<open>ulp_exponent\<close> finds \<open>e\<close> for a positive \<open>y\<close>: it starts at 0 and
  halves or doubles \<open>y\<close> until \<open>2 ^ (p - 1) \<le> y < 2 ^ p\<close>, stopping at \<open>emax\<close>
  and at \<open>emin\<close>, the exponent of the subnormal numbers. Binary32 has \<open>p = 24\<close> and
  exponents from -149 to 104, binary64 has \<open>p = 53\<close> and exponents from -1074 to 971.
  Overflow to infinity, at \<open>2 ^ 128\<close> for binary32, is not modelled, nor is the value
  that is not a number.
\<close>

definition round_to_even :: "real \<Rightarrow> int" where
  "round_to_even x =
     (let n = \<lfloor>x\<rfloor>; d = x - of_int n
      in if d < 1 / 2 then n else if d > 1 / 2 then n + 1 else if even n then n else n + 1)"

definition pow2 :: "int \<Rightarrow> real" where
  "pow2 e = (if e \<ge> 0 then 2 ^ nat e else 1 / 2 ^ nat (- e))"

function scale_up :: "nat \<Rightarrow> int \<Rightarrow> real \<Rightarrow> int \<Rightarrow> int" where
  "scale_up p emax y e = (if e < emax \<and> 2 ^ p \<le> y then scale_up p emax (y / 2) (e + 1) else e)"
  by pat_completeness auto
termination
  by (relation "measure (\<lambda>(p, emax, y, e). nat (emax - e))") auto

function scale_down :: "nat \<Rightarrow> int \<Rightarrow> real \<Rightarrow> int \<Rightarrow> int" where
  "scale_down p emin y e =
     (if emin < e \<and> 2 * y < 2 ^ p then scale_down p emin (2 * y) (e - 1) else e)"
  by pat_completeness auto
termination
  by (relation "measure (\<lambda>(p, emin, y, e). nat (e - emin))") auto

declare scale_up.simps [simp del]

declare scale_down.simps [simp del]

definition ulp_exponent :: "nat \<Rightarrow> int \<Rightarrow> int \<Rightarrow> real \<Rightarrow> int" where
  "ulp_exponent p emin emax y =
     (if 2 ^ p \<le> y then scale_up p emax y 0 else scale_down p emin y 0)"

definition fp_round :: "nat \<Rightarrow> int \<Rightarrow> int \<Rightarrow> real \<Rightarrow> real" where
  "fp_round p emin emax x =
     (if x = 0 then 0
      else
        (let e = ulp_exponent p emin emax \<bar>x\<bar>
         in sgn x * of_int (round_to_even (\<bar>x\<bar> / pow2 e)) * pow2 e))"

definition float_round :: "real \<Rightarrow> real" where
  "float_round = fp_round 24 (- 149) 104"

definition double_round :: "real \<Rightarrow> real" where
  "double_round = fp_round 53 (- 1074) 971"

text \<open>
  The loop of \<^verbatim>\<open>findTargetLoad\<close>. It may run forever, so not returning is the value
  \<open>None\<close>. \<^verbatim>\<open>load_cap -= cap_step\<close> and \<^verbatim>\<open>load_cap += cap_step\<close> are
  \<^verbatim>\<open>float\<close> operations; \<^verbatim>\<open>cap_step /= 2.0\<close> divides in \<^verbatim>\<open>double\<close> and stores a
  \<^verbatim>\<open>float\<close>.
\<close>

partial_function (option) findTargetLoad_loop ::
  "(Slew \<Rightarrow> real \<Rightarrow> ArcDelay \<times> Slew) \<Rightarrow> Slew \<Rightarrow> real \<Rightarrow> real \<Rightarrow> real \<Rightarrow> real option" where
  "findTargetLoad_loop gate_model in_slew cap_tol load_cap cap_step =
     (if cap_step > cap_tol
      then
        (let (arc_delay, arc_slew) = gate_model 0 load_cap in
         if arc_slew > in_slew
         then
           (let load_cap1 = float_round (load_cap - cap_step);
                cap_step1 = float_round (double_round (cap_step / 2))
            in findTargetLoad_loop gate_model in_slew cap_tol
                 (float_round (load_cap1 + cap_step1)) cap_step1)
         else findTargetLoad_loop gate_model in_slew cap_tol
                (float_round (load_cap + cap_step)) cap_step)
      else Some load_cap)"

declare findTargetLoad_loop.simps [code]

text \<open>
  \<^verbatim>\<open>float cap_init = 1.0e-12\<close> and \<^verbatim>\<open>float cap_tol = cap_init * .001\<close>: the literals
  are \<^verbatim>\<open>double\<close>, and so is the product.
\<close>

definition cap_init :: real where
  "cap_init = float_round (double_round (1 / 10 ^ 12))"

definition findTargetLoad :: "Resizer \<Rightarrow> LibertyCell \<Rightarrow> TimingArc \<Rightarrow> Slew \<Rightarrow> real option" where
  "findTargetLoad r cell arc in_slew =
     (case model arc of
        Some gate_model \<Rightarrow>
          (let cap_tol = float_round (double_round (cap_init * double_round (1 / 1000)));
               load_cap = cap_init;
               cap_step = cap_init
           in findTargetLoad_loop gate_model in_slew cap_tol load_cap cap_step)
      | None \<Rightarrow> Some 0)"

section \<open>Gate delay\<close>

definition gateDelay :: "Resizer \<Rightarrow> LibertyPort \<Rightarrow> real \<Rightarrow> ArcDelay" where
  "gateDelay r out_port load_cap =
     fold (\<lambda>arc_set max_delay.
             if arc_set_to arc_set = port_name out_port
             then fold (\<lambda>arc max_delay.
                          (let in_slew = m_tgt_slews r (fromTrans arc);
                               (gate_delay, drvr_slew) =
                                  arc_delay_calc_gateDelay r (port_cell out_port) arc in_slew load_cap
                           in max max_delay gate_delay))
                       (arcs arc_set) max_delay
             else max_delay)
          (cell_arc_sets out_port) (- INF_float r)"

definition bufferDelay :: "Resizer \<Rightarrow> LibertyCell \<Rightarrow> real \<Rightarrow> ArcDelay" where
  "bufferDelay r buffer_cell load_cap =
     (let (input, output) = bufferPorts buffer_cell in gateDelay r output load_cap)"

definition bufferRequired :: "RebufferOption \<Rightarrow> LibertyCell \<Rightarrow> Resizer \<Rightarrow> Required" where
  "bufferRequired z buffer_cell resizer = required z - bufferDelay resizer buffer_cell (cap z)"

section \<open>Rebuffer engine: bottom-up pass\<close>

text \<open>
  The loop of \<^verbatim>\<open>addWireAndBuffer\<close> over \<open>Z\<close>; its state is
  \<open>(Z1, best, best_ref)\<close>. The debug output and the \<open>level\<close> parameter that
  only indents it are left out.
\<close>

fun addWireAndBuffer_iter ::
  "Resizer \<Rightarrow> LibertyCell \<Rightarrow> real \<Rightarrow> real \<Rightarrow> DefPt \<Rightarrow> RebufferOptionSeq
   \<Rightarrow> RebufferOptionSeq \<times> Required \<times> RebufferOption option
   \<Rightarrow> RebufferOptionSeq \<times> Required \<times> RebufferOption option" where
  "addWireAndBuffer_iter r buffer_cell wire_cap wire_delay prev_loc [] st = st"
| "addWireAndBuffer_iter r buffer_cell wire_cap wire_delay prev_loc (p # Z) (Z1, best, best_ref) =
     (let z = RebufferOption wire (cap p + wire_cap) (required p - wire_delay) None
                prev_loc (Some p) None;
          Z1 = Z1 @ [z];
          rt = bufferRequired z buffer_cell r
      in if fuzzyGreater r rt best
         then addWireAndBuffer_iter r buffer_cell wire_cap wire_delay prev_loc Z (Z1, rt, Some p)
         else addWireAndBuffer_iter r buffer_cell wire_cap wire_delay prev_loc Z (Z1, best, best_ref))"

definition addWireAndBuffer ::
  "Resizer \<Rightarrow> RebufferOptionSeq \<Rightarrow> SteinerPt \<Rightarrow> SteinerPt \<Rightarrow> LibertyCell \<Rightarrow> RebufferOptionSeq" where
  "addWireAndBuffer r Z k prev buffer_cell =
     (let k_loc = tree_location k;
          prev_loc = tree_location prev;
          wire_length_dbu = \<bar>pt_x k_loc - pt_x prev_loc\<bar> + \<bar>pt_y k_loc - pt_y prev_loc\<bar>;
          wire_length = dbuToMeters (m_network r) wire_length_dbu;
          wire_cap = wire_length * m_wire_cap r;
          wire_res = wire_length * m_wire_res r;
          wire_delay = wire_res * wire_cap;
          (Z1, best, best_ref) =
             addWireAndBuffer_iter r buffer_cell wire_cap wire_delay prev_loc Z
               ([], - INF_float r, None)
      in case best_ref of
           Some p \<Rightarrow>
             Z1 @ [RebufferOption buffer (bufferInputCapacitance r buffer_cell) best None
                     prev_loc (Some p) None]
         | None \<Rightarrow> Z1)"

text \<open>
  The pruning loops of \<^verbatim>\<open>rebufferBottomUp\<close>. \<open>Z2\<close> is a vector of pointers that
  the loops null in place, so it is a list of options, and each iteration reads its
  element from the current vector. The inner loop's state is \<open>(Z2, qi)\<close>; the source
  increments \<open>qi\<close> only when \<open>q\<close> is not null.
\<close>

definition prune_inner ::
  "Resizer \<Rightarrow> LibertyCell \<Rightarrow> RebufferOption \<Rightarrow> RebufferOption option list
   \<Rightarrow> RebufferOption option list" where
  "prune_inner r buffer_cell p Z2 =
     (let Tp = bufferRequired p buffer_cell r;
          Lp = cap p
      in fst (fold (\<lambda>j (Z2, qi).
                      case Z2 ! j of
                        Some q \<Rightarrow>
                          (let Tq = bufferRequired q buffer_cell r;
                               Lq = cap q
                           in ((if fuzzyLess r Tq Tp \<and> fuzzyGreater r Lq Lp
                                then Z2[qi := None] else Z2),
                               qi + 1))
                      | None \<Rightarrow> (Z2, qi))
                   [0..<length Z2] (Z2, 0::nat)))"

definition prune ::
  "Resizer \<Rightarrow> LibertyCell \<Rightarrow> RebufferOption option list \<Rightarrow> RebufferOption option list" where
  "prune r buffer_cell Z2 =
     fold (\<lambda>i Z2. case Z2 ! i of
                     Some p \<Rightarrow> prune_inner r buffer_cell p Z2
                   | None \<Rightarrow> Z2)
          [0..<length Z2] Z2"

definition junctions :: "SteinerPt \<Rightarrow> RebufferOptionSeq \<Rightarrow> RebufferOptionSeq \<Rightarrow> RebufferOptionSeq" where
  "junctions k Zl Zr =
     concat (map (\<lambda>p. map (\<lambda>q. RebufferOption junction (cap p + cap q)
                                   (min (required p) (required q)) None
                                   (tree_location k) (Some p) (Some q)) Zr) Zl)"

definition survivors :: "RebufferOption option list \<Rightarrow> RebufferOptionSeq" where
  "survivors Z2 = concat (map (\<lambda>p. case p of Some z \<Rightarrow> [z] | None \<Rightarrow> []) Z2)"

fun rebufferBottomUp ::
  "Resizer \<Rightarrow> SteinerPt \<Rightarrow> SteinerPt \<Rightarrow> LibertyCell \<Rightarrow> RebufferOptionSeq" where
  "rebufferBottomUp r null_pt prev buffer_cell = []"
| "rebufferBottomUp r (Pt pin loc l rt) prev buffer_cell =
     (let k = Pt pin loc l rt in
      case pin of
        Some load_pin \<Rightarrow>
          if isLoad (m_network r) load_pin
          then
            (let z = RebufferOption sink (pinCapacitance r load_pin) (pinRequired r load_pin)
                       (Some load_pin) (tree_location k) None None
             in addWireAndBuffer r [z] k prev buffer_cell)
          else []
      | None \<Rightarrow>
          (let Zl = rebufferBottomUp r l k buffer_cell;
               Zr = rebufferBottomUp r rt k buffer_cell;
               Z2 = map Some (junctions k Zl Zr);
               Z = survivors (prune r buffer_cell Z2)
           in addWireAndBuffer r Z k prev buffer_cell))"

section \<open>Netlist mutator\<close>

text \<open>\<^verbatim>\<open>stringPrint\<close> with \<^verbatim>\<open>%d\<close>: the decimal digits of an integer.\<close>

fun string_of_nat :: "nat \<Rightarrow> string" where
  "string_of_nat n =
     (if n < 10 then [''0123456789'' ! n]
      else string_of_nat (n div 10) @ [''0123456789'' ! (n mod 10)])"

definition string_of_int :: "int \<Rightarrow> string" where
  "string_of_int i = (if i < 0 then ''-'' @ string_of_nat (nat (- i)) else string_of_nat (nat i))"

definition findNet :: "Network \<Rightarrow> string \<Rightarrow> bool" where
  "findNet network name = (name \<in> set (net_names network))"

definition findInstance :: "Network \<Rightarrow> string \<Rightarrow> bool" where
  "findInstance network name = (name \<in> set (map inst_name (instances network)))"

text \<open>
  The do-while loops of \<^verbatim>\<open>makeUniqueNetName\<close> and \<^verbatim>\<open>makeUniqueBufferName\<close>:
  the name is printed from the index, the index is incremented, and the loop repeats
  while the name is taken.
\<close>

partial_function (option) makeUniqueNetName_loop :: "Network \<Rightarrow> int \<Rightarrow> (string \<times> int) option" where
  "makeUniqueNetName_loop network unique_net_index =
     (let node_name = ''net'' @ string_of_int unique_net_index;
          next_index = unique_net_index + 1
      in if findNet network node_name
         then makeUniqueNetName_loop network next_index
         else Some (node_name, next_index))"

partial_function (option) makeUniqueBufferName_loop :: "Network \<Rightarrow> int \<Rightarrow> (string \<times> int) option" where
  "makeUniqueBufferName_loop network unique_buffer_index =
     (let buffer_name = ''buffer'' @ string_of_int unique_buffer_index;
          next_index = unique_buffer_index + 1
      in if findInstance network buffer_name
         then makeUniqueBufferName_loop network next_index
         else Some (buffer_name, next_index))"

declare makeUniqueNetName_loop.simps [code]

declare makeUniqueBufferName_loop.simps [code]

definition makeUniqueNetName :: "Resizer \<Rightarrow> (string \<times> Resizer) option" where
  "makeUniqueNetName r =
     (case makeUniqueNetName_loop (m_network r) (m_unique_net_index r) of
        Some (node_name, next_index) \<Rightarrow> Some (node_name, r\<lparr>m_unique_net_index := next_index\<rparr>)
      | None \<Rightarrow> None)"

definition makeUniqueBufferName :: "Resizer \<Rightarrow> (string \<times> Resizer) option" where
  "makeUniqueBufferName r =
     (case makeUniqueBufferName_loop (m_network r) (m_unique_buffer_index r) of
        Some (buffer_name, next_index) \<Rightarrow>
          Some (buffer_name, r\<lparr>m_unique_buffer_index := next_index\<rparr>)
      | None \<Rightarrow> None)"

definition makeNet :: "Resizer \<Rightarrow> string \<Rightarrow> Resizer" where
  "makeNet r name =
     r\<lparr>m_network := (m_network r)\<lparr>net_names := net_names (m_network r) @ [name]\<rparr>\<rparr>"

definition makeInstance :: "Resizer \<Rightarrow> LibertyCell \<Rightarrow> string \<Rightarrow> Resizer" where
  "makeInstance r cell name =
     r\<lparr>m_network := (m_network r)\<lparr>instances :=
          instances (m_network r)
          @ [\<lparr>inst_name = name, inst_cell = cell_name cell, inst_location = None\<rparr>]\<rparr>\<rparr>"

text \<open>A net pointer is an option: \<open>None\<close> is the null net.\<close>

definition connectPin :: "Resizer \<Rightarrow> string \<Rightarrow> string \<Rightarrow> Net option \<Rightarrow> Resizer" where
  "connectPin r inst port net =
     r\<lparr>m_network := (m_network r)\<lparr>pin_net := (pin_net (m_network r))((inst, port) := net)\<rparr>\<rparr>"

definition disconnectPin :: "Resizer \<Rightarrow> Pin \<Rightarrow> Resizer" where
  "disconnectPin r pin =
     r\<lparr>m_network := (m_network r)\<lparr>pin_net := (pin_net (m_network r))(pin := None)\<rparr>\<rparr>"

definition setLocation :: "Resizer \<Rightarrow> string \<Rightarrow> DefPt \<Rightarrow> Resizer" where
  "setLocation r inst loc =
     r\<lparr>m_network := (m_network r)\<lparr>instances :=
          map (\<lambda>i. if inst_name i = inst then i\<lparr>inst_location := Some loc\<rparr> else i)
              (instances (m_network r))\<rparr>\<rparr>"

text \<open>
  \<^verbatim>\<open>makeNetParasitics(net)\<close> writes only to the parasitics store, which is not
  modelled: the model records the nets whose parasitics were rebuilt.
\<close>

definition makeNetParasitics :: "Resizer \<Rightarrow> Net option \<Rightarrow> Resizer" where
  "makeNetParasitics r net = r\<lparr>m_parasitic_nets := m_parasitic_nets r @ [net]\<rparr>"

section \<open>Rebuffer engine: top-down pass\<close>

text \<open>
  \<^verbatim>\<open>rebufferTopDown\<close> returns the inserted buffer count and the resizer after its
  mutations. \<open>None\<close> is a run that does not return: a null \<open>ref\<close>, \<open>ref2\<close> or
  load pin is dereferenced, or a name loop does not end.
\<close>

fun rebufferTopDown ::
  "Resizer \<Rightarrow> RebufferOption \<Rightarrow> Net option \<Rightarrow> LibertyCell \<Rightarrow> (int \<times> Resizer) option" where
  "rebufferTopDown r (RebufferOption ty cp rq lp loc rf rf2) net buffer_cell =
     (case ty of
        buffer \<Rightarrow>
          (case makeUniqueNetName r of
             None \<Rightarrow> None
           | Some (net2_name, r1) \<Rightarrow>
               (case makeUniqueBufferName r1 of
                  None \<Rightarrow> None
                | Some (buffer_name, r2) \<Rightarrow>
                    (let net2 = Some net2_name;
                         r3 = makeNet r2 net2_name;
                         r4 = makeInstance r3 buffer_cell buffer_name;
                         r5 = r4\<lparr>m_level_drvr_verticies_valid := False\<rparr>;
                         (input, output) = bufferPorts buffer_cell;
                         r6 = connectPin r5 buffer_name (port_name input) net;
                         r7 = connectPin r6 buffer_name (port_name output) net2;
                         r8 = setLocation r7 buffer_name loc
                     in case rf of
                          None \<Rightarrow> None
                        | Some choice_ref \<Rightarrow>
                            (case rebufferTopDown r8 choice_ref net2 buffer_cell of
                               None \<Rightarrow> None
                             | Some (insert_count, r9) \<Rightarrow>
                                 Some (1, makeNetParasitics (makeNetParasitics r9 net) net2)))))
      | wire \<Rightarrow>
          (case rf of
             None \<Rightarrow> None
           | Some choice_ref \<Rightarrow> rebufferTopDown r choice_ref net buffer_cell)
      | junction \<Rightarrow>
          (case rf of
             None \<Rightarrow> None
           | Some choice_ref \<Rightarrow>
               (case rebufferTopDown r choice_ref net buffer_cell of
                  None \<Rightarrow> None
                | Some (insert_count1, r1) \<Rightarrow>
                    (case rf2 of
                       None \<Rightarrow> None
                     | Some choice_ref2 \<Rightarrow>
                         (case rebufferTopDown r1 choice_ref2 net buffer_cell of
                            None \<Rightarrow> None
                          | Some (insert_count2, r2) \<Rightarrow>
                              Some (insert_count1 + insert_count2, r2)))))
      | sink \<Rightarrow>
          (case lp of
             None \<Rightarrow> None
           | Some load_pin \<Rightarrow>
               (let load_net = pin_net (m_network r) load_pin in
                if load_net \<noteq> net
                then
                  (let load_inst = fst load_pin;
                       load_port = snd load_pin
                   in Some (0, connectPin (disconnectPin r load_pin) load_inst load_port net))
                else Some (0, r))))"

section \<open>Rebuffering one driver\<close>

text \<open>
  The loop of \<^verbatim>\<open>rebuffer(drvr_pin, buffer_cell)\<close> over the options at the driver; its
  state is \<open>(Tbest, best)\<close>. \<^verbatim>\<open>gateDelay\<close> dereferences the driver port, so a null
  driver port with an option to weigh does not return.
\<close>

fun rebuffer_iter ::
  "Resizer \<Rightarrow> LibertyPort option \<Rightarrow> RebufferOptionSeq \<Rightarrow> Required \<times> RebufferOption option
   \<Rightarrow> (Required \<times> RebufferOption option) option" where
  "rebuffer_iter r drvr_port [] st = Some st"
| "rebuffer_iter r drvr_port (p # Z) (Tbest, best) =
     (case drvr_port of
        None \<Rightarrow> None
      | Some port \<Rightarrow>
          (let Tb = required p - gateDelay r port (cap p)
           in if fuzzyGreater r Tb Tbest
              then rebuffer_iter r drvr_port Z (Tb, Some p)
              else rebuffer_iter r drvr_port Z (Tbest, best)))"

text \<open>
  \<^verbatim>\<open>rebuffer(drvr_pin, buffer_cell)\<close>. \<open>makeSteinerTree\<close> yields the driver point
  of the net's tree, \<open>None\<close> for a null tree, which the source dereferences. Inside the
  branch of a constrained driver the source reads the left child of the driver point, so
  a null driver point does not return there.
\<close>

definition rebuffer :: "Resizer \<Rightarrow> Pin \<Rightarrow> LibertyCell \<Rightarrow> Resizer option" where
  "rebuffer r drvr_pin buffer_cell =
     (let (net, drvr_port) =
            (if isTopLevelPort (m_network r) drvr_pin
             then (term_net (m_network r) drvr_pin, Some (snd (bufferPorts buffer_cell)))
             else (pin_net (m_network r) drvr_pin, libertyPort (m_network r) drvr_pin))
      in case makeSteinerTree r net of
           None \<Rightarrow> None
         | Some drvr_pt \<Rightarrow>
             (let drvr_req = pinRequired r drvr_pin in
              if \<not> fuzzyInf r drvr_req
              then
                (case drvr_pt of
                   null_pt \<Rightarrow> None
                 | Pt pin loc l rt \<Rightarrow>
                     (let Z = rebufferBottomUp r (tree_left drvr_pt) drvr_pt buffer_cell in
                      case rebuffer_iter r drvr_port Z (- INF_float r, None) of
                        None \<Rightarrow> None
                      | Some (Tbest, best) \<Rightarrow>
                          (case best of
                             None \<Rightarrow> Some r
                           | Some best_option \<Rightarrow>
                               (case rebufferTopDown r best_option net buffer_cell of
                                  None \<Rightarrow> None
                                | Some (insert_count, r1) \<Rightarrow>
                                    if insert_count > 0
                                    then Some (r1\<lparr>m_inserted_buffer_count :=
                                                     m_inserted_buffer_count r1 + insert_count,
                                                   m_rebuffer_net_count :=
                                                     m_rebuffer_net_count r1 + 1\<rparr>)
                                    else Some r1))))
              else Some r))"

section \<open>Quantities of the statements\<close>

text \<open>
  The wire between a point and its parent, as \<^verbatim>\<open>addWireAndBuffer\<close> computes it:
  its length in meters, its capacitance and its lumped delay; and the wire option the
  loop makes for an option \<open>p\<close>.
\<close>

definition wire_length_of :: "Resizer \<Rightarrow> SteinerPt \<Rightarrow> SteinerPt \<Rightarrow> real" where
  "wire_length_of r k prev =
     dbuToMeters (m_network r)
       (\<bar>pt_x (tree_location k) - pt_x (tree_location prev)\<bar>
        + \<bar>pt_y (tree_location k) - pt_y (tree_location prev)\<bar>)"

definition wire_cap_of :: "Resizer \<Rightarrow> SteinerPt \<Rightarrow> SteinerPt \<Rightarrow> real" where
  "wire_cap_of r k prev = wire_length_of r k prev * m_wire_cap r"

definition wire_delay_of :: "Resizer \<Rightarrow> SteinerPt \<Rightarrow> SteinerPt \<Rightarrow> real" where
  "wire_delay_of r k prev =
     (wire_length_of r k prev * m_wire_res r) * (wire_length_of r k prev * m_wire_cap r)"

definition wire_option :: "real \<Rightarrow> real \<Rightarrow> DefPt \<Rightarrow> RebufferOption \<Rightarrow> RebufferOption" where
  "wire_option wire_cap wire_delay prev_loc p =
     RebufferOption wire (cap p + wire_cap) (required p - wire_delay) None prev_loc (Some p) None"

text \<open>The net that \<^verbatim>\<open>rebuffer(drvr_pin, buffer_cell)\<close> rebuffers.\<close>

definition drvr_net :: "Resizer \<Rightarrow> Pin \<Rightarrow> Net option" where
  "drvr_net r drvr_pin =
     (if isTopLevelPort (m_network r) drvr_pin
      then term_net (m_network r) drvr_pin
      else pin_net (m_network r) drvr_pin)"

text \<open>
  The ratio the resizer maximizes: the target load of a cell over the load, folded
  into \<open>[0, 1]\<close> as the loop of \<^verbatim>\<open>resizeToTargetSlew1\<close> folds it.
\<close>

definition ratio_folded :: "Resizer \<Rightarrow> Cell \<Rightarrow> real \<Rightarrow> real" where
  "ratio_folded r target_cell load_cap =
     (let ratio = target_load_of r target_cell / load_cap
      in if ratio > 1 then 1 / ratio else ratio)"

text \<open>
  What the report of a rebuffering run rests on: the names of the instances of the
  netlist, and the counters of inserted buffers and rebuffered nets.
\<close>

definition buffer_report :: "Resizer \<Rightarrow> string list \<times> int \<times> int" where
  "buffer_report r =
     (map inst_name (instances (m_network r)), m_inserted_buffer_count r, m_rebuffer_net_count r)"


fun tightest :: "(real \<times> bool) list \<Rightarrow> real option" where
  "tightest [] = None"
| "tightest ((v, e) # ls) =
     (if e then (case tightest ls of None \<Rightarrow> Some v | Some m \<Rightarrow> Some (min v m))
      else tightest ls)"

section \<open>The fuzzy comparisons and an example design\<close>

text \<open>
  Modelled from the spec: the fuzzy comparator of the timing engine (\<^verbatim>\<open>Fuzzy.cc\<close> is
  not among the sources), "two values are equal within an epsilon proportional to their
  magnitudes; \<open>>\<close> and \<open><\<close> are strict outside the epsilon". The functions above take
  the comparisons from the \<open>Sta\<close> record; these instances of them are used where a
  statement is evaluated on a concrete design.
\<close>

definition sta_fuzzyEqual :: "real \<Rightarrow> real \<Rightarrow> bool" where
  "sta_fuzzyEqual v1 v2 = (v1 = v2 \<or> \<bar>v1 - v2\<bar> < (1 / 10 ^ 6) * max \<bar>v1\<bar> \<bar>v2\<bar>)"

definition sta_fuzzyLess :: "real \<Rightarrow> real \<Rightarrow> bool" where
  "sta_fuzzyLess v1 v2 = (v1 < v2 \<and> \<not> sta_fuzzyEqual v1 v2)"

definition sta_fuzzyGreater :: "real \<Rightarrow> real \<Rightarrow> bool" where
  "sta_fuzzyGreater v1 v2 = (v1 > v2 \<and> \<not> sta_fuzzyEqual v1 v2)"

definition sta_fuzzyInf :: "real \<Rightarrow> bool" where
  "sta_fuzzyInf v = sta_fuzzyEqual \<bar>v\<bar> (10 ^ 30)"

text \<open>
  The example design: an inverter \<open>u1\<close> at the origin drives the net \<open>n1\<close> with the
  loads \<open>u2/A\<close> and \<open>u3/A\<close>; the Steiner tree of \<open>n1\<close> has one Steiner point at
  \<open>(1, 0)\<close>. Capacitances are in fF, times in ps, and a database unit of wire has
  capacitance 1 and resistance 1. The buffer \<open>BUF\<close> has input capacitance 1 and a delay
  equal to its load; the driver's delay is five times its load. The load \<open>u2/A\<close> is
  required at 0, the load \<open>u3/A\<close> at 1000; each has capacitance 10. The output port of
  the inverter has a max capacitance limit of 8. The inverter \<open>INV\<close> has the target
  load 15 and its equivalent \<open>INVX2\<close> the target load 36; the load capacitance at
  every pin is 24. The timing graph has the vertices of \<open>u3/A\<close>, \<open>u2/A\<close> (level 2)
  and \<open>u1/Z\<close> (level 1); every slew is 30 and no slew limit is set anywhere.
\<close>

definition ex_arc :: "TransRiseFall \<Rightarrow> (Slew \<Rightarrow> real \<Rightarrow> ArcDelay \<times> Slew) \<Rightarrow> TimingArc" where
  "ex_arc tr gate_model = \<lparr>fromTrans = tr, toTrans = tr, model = Some gate_model\<rparr>"

definition ex_port ::
  "string \<Rightarrow> Cell \<Rightarrow> (Slew \<Rightarrow> real \<Rightarrow> ArcDelay \<times> Slew) \<Rightarrow> real \<Rightarrow> LibertyPort" where
  "ex_port name cell gate_model c =
     \<lparr>port_name = name, port_cell = cell,
      cell_arc_sets =
        [\<lparr>arc_set_to = ''Z'', arcs = [ex_arc rise gate_model, ex_arc fall gate_model]\<rparr>],
      capacitance = (\<lambda>tr min_max. c),
      capacitanceLimit = (\<lambda>min_max. (0, False)),
      port_slewLimit = (\<lambda>min_max. (0, False))\<rparr>"

definition ex_buffer_model :: "Slew \<Rightarrow> real \<Rightarrow> ArcDelay \<times> Slew" where
  "ex_buffer_model in_slew load_cap = (load_cap, in_slew)"

definition ex_buffer_cell :: LibertyCell where
  "ex_buffer_cell =
     \<lparr>cell_name = ''BUF'',
      bufferPorts = (ex_port ''A'' ''BUF'' ex_buffer_model 1,
                     ex_port ''Z'' ''BUF'' ex_buffer_model 0),
      equivCells = Some [''BUF'']\<rparr>"

definition ex_driver_model :: "Slew \<Rightarrow> real \<Rightarrow> ArcDelay \<times> Slew" where
  "ex_driver_model in_slew load_cap = (5 * load_cap, in_slew)"

definition ex_drvr_port :: LibertyPort where
  "ex_drvr_port =
     (ex_port ''Z'' ''INV'' ex_driver_model 0)\<lparr>capacitanceLimit := (\<lambda>min_max. (8, True))\<rparr>"

definition ex_load2 :: SteinerPt where
  "ex_load2 = Pt (Some (''u2'', ''A'')) (DefPt 2 1) null_pt null_pt"

definition ex_load3 :: SteinerPt where
  "ex_load3 = Pt (Some (''u3'', ''A'')) (DefPt 2 (- 1)) null_pt null_pt"

definition ex_steiner :: SteinerPt where
  "ex_steiner = Pt None (DefPt 1 0) ex_load2 ex_load3"

definition ex_tree :: SteinerPt where
  "ex_tree = Pt (Some (''u1'', ''Z'')) (DefPt 0 0) ex_steiner null_pt"

definition ex_network :: Network where
  "ex_network =
     \<lparr>net_names = [''n1''],
      instances =
        [\<lparr>inst_name = ''u1'', inst_cell = ''INV'', inst_location = Some (DefPt 0 0)\<rparr>,
         \<lparr>inst_name = ''u2'', inst_cell = ''INV'', inst_location = Some (DefPt 2 1)\<rparr>,
         \<lparr>inst_name = ''u3'', inst_cell = ''INV'', inst_location = Some (DefPt 2 (- 1))\<rparr>],
      pin_net = (\<lambda>pin. if pin = (''u1'', ''Z'') \<or> pin = (''u2'', ''A'') \<or> pin = (''u3'', ''A'')
                        then Some ''n1'' else None),
      term_net = (\<lambda>pin. None),
      isTopLevelPort = (\<lambda>pin. False),
      isLoad = (\<lambda>pin. snd pin = ''A''),
      isDriver = (\<lambda>pin. snd pin = ''Z''),
      pathName = (\<lambda>pin. fst pin @ ''/'' @ snd pin),
      libertyPort =
        (\<lambda>pin. if snd pin = ''A'' then Some (ex_port ''A'' ''INV'' ex_driver_model 10)
               else if snd pin = ''Z''
               then Some ex_drvr_port
               else None),
      instance_pins = (\<lambda>inst. [((inst, ''A''), False), ((inst, ''Z''), True)]),
      libertyCells =
        (\<lambda>c. if c = ''INV'' \<or> c = ''INVX2''
             then Some \<lparr>cell_name = c,
                        bufferPorts = (ex_port ''A'' c ex_driver_model 10,
                                       ex_port ''Z'' c ex_driver_model 0),
                        equivCells = Some [''INV'', ''INVX2'']\<rparr>
             else None),
      isLefCell = (\<lambda>c. False),
      lefCell = (\<lambda>c. None),
      dbuToMeters = (\<lambda>dbu. real_of_int dbu)\<rparr>"

definition ex_resizer :: Resizer where
  "ex_resizer =
     \<lparr>m_network = ex_network,
      graph_vertices =
        [\<lparr>level = 2, vertex_pin = (''u3'', ''A'')\<rparr>, \<lparr>level = 2, vertex_pin = (''u2'', ''A'')\<rparr>,
         \<lparr>level = 1, vertex_pin = (''u1'', ''Z'')\<rparr>],
      graph_slew = (\<lambda>pin tr. 30),
      loadCap = (\<lambda>pin. 24),
      pinRequired = (\<lambda>pin. if pin = (''u2'', ''A'') then 0 else 1000),
      isClock = (\<lambda>v. False),
      sdc_slewLimit_cell = (\<lambda>min_max. (0, False)),
      sdc_slewLimit_port = (\<lambda>pin min_max. (0, False)),
      sdc_slewLimit_pin = (\<lambda>pin min_max. (0, False)),
      arc_delay_calc_gateDelay =
        (\<lambda>cell arc in_slew load_cap.
           case model arc of Some gate_model \<Rightarrow> gate_model in_slew load_cap | None \<Rightarrow> (0, 0)),
      makeSteinerTree = (\<lambda>net. if net = Some ''n1'' then Some ex_tree else None),
      fuzzyLess = sta_fuzzyLess,
      fuzzyGreater = sta_fuzzyGreater,
      fuzzyInf = sta_fuzzyInf,
      INF_float = 10 ^ 30,
      m_corner = Some ''default'',
      m_wire_res = 1,
      m_wire_cap = 1,
      m_min_max = MinMax_max,
      m_target_load_map =
        (\<lambda>c. if c = ''INV'' then Some 15 else if c = ''INVX2'' then Some 36 else None),
      m_tgt_slews = (\<lambda>tr. 0),
      m_level_drvr_verticies = [],
      m_level_drvr_verticies_valid = False,
      m_unique_net_index = 1,
      m_unique_buffer_index = 1,
      m_resize_count = 0,
      m_inserted_buffer_count = 0,
      m_rebuffer_net_count = 0,
      m_parasitic_nets = []\<rparr>"



text \<open>The example design with every required time infinite.\<close>

definition ex_unconstrained :: Resizer where
  "ex_unconstrained = ex_resizer\<lparr>pinRequired := (\<lambda>pin. 10 ^ 30)\<rparr>"

text \<open>
  The options of the bottom-up pass on the example design. At the Steiner point each
  load gives a wire option and a buffer option, and the junction options are their four
  pairs: \<open>ww\<close> (wire, wire), \<open>wb\<close>, \<open>bw\<close> and \<open>bb\<close> (buffer, buffer). At the
  driver the surviving junction options give two wire options and a buffer option.
\<close>

definition ex_sink2 :: RebufferOption where
  "ex_sink2 = RebufferOption sink 10 0 (Some (''u2'', ''A'')) (DefPt 2 1) None None"

definition ex_sink3 :: RebufferOption where
  "ex_sink3 = RebufferOption sink 10 1000 (Some (''u3'', ''A'')) (DefPt 2 (- 1)) None None"

definition ex_wire2 :: RebufferOption where
  "ex_wire2 = RebufferOption wire 12 (- 4) None (DefPt 1 0) (Some ex_sink2) None"

definition ex_buffer2 :: RebufferOption where
  "ex_buffer2 = RebufferOption buffer 1 (- 16) None (DefPt 1 0) (Some ex_sink2) None"

definition ex_wire3 :: RebufferOption where
  "ex_wire3 = RebufferOption wire 12 996 None (DefPt 1 0) (Some ex_sink3) None"

definition ex_buffer3 :: RebufferOption where
  "ex_buffer3 = RebufferOption buffer 1 984 None (DefPt 1 0) (Some ex_sink3) None"

definition ex_junction_ww :: RebufferOption where
  "ex_junction_ww = RebufferOption junction 24 (- 4) None (DefPt 1 0) (Some ex_wire2) (Some ex_wire3)"

definition ex_junction_wb :: RebufferOption where
  "ex_junction_wb = RebufferOption junction 13 (- 4) None (DefPt 1 0) (Some ex_wire2) (Some ex_buffer3)"

definition ex_junction_bw :: RebufferOption where
  "ex_junction_bw = RebufferOption junction 13 (- 16) None (DefPt 1 0) (Some ex_buffer2) (Some ex_wire3)"

definition ex_junction_bb :: RebufferOption where
  "ex_junction_bb = RebufferOption junction 2 (- 16) None (DefPt 1 0) (Some ex_buffer2) (Some ex_buffer3)"

definition ex_top_wire_bw :: RebufferOption where
  "ex_top_wire_bw = RebufferOption wire 14 (- 17) None (DefPt 0 0) (Some ex_junction_bw) None"

definition ex_top_wire_bb :: RebufferOption where
  "ex_top_wire_bb = RebufferOption wire 3 (- 17) None (DefPt 0 0) (Some ex_junction_bb) None"

definition ex_top_buffer :: RebufferOption where
  "ex_top_buffer = RebufferOption buffer 1 (- 20) None (DefPt 0 0) (Some ex_junction_bb) None"

text \<open>
  Two gate models for the target load loop, whose loads are in farads as in the source:
  one whose output slew is 5 whatever the load, and one whose output slew is 40 per pF of
  load.
\<close>

definition ex_flat_model :: "Slew \<Rightarrow> real \<Rightarrow> ArcDelay \<times> Slew" where
  "ex_flat_model in_slew load_cap = (20, 5)"

definition ex_slew_model :: "Slew \<Rightarrow> real \<Rightarrow> ArcDelay \<times> Slew" where
  "ex_slew_model in_slew load_cap = (20, 40 * 10 ^ 12 * load_cap)"

section \<open>Max capacitance violations\<close>

text \<open>
  Claim C8. \<open>hasMaxCapViolation\<close> holds of a pin exactly when the pin has a library port,
  that port declares a max capacitance limit, and the load capacitance at the pin exceeds
  the limit. A pin with no library port, or whose port declares no limit, never reports
  a violation.
\<close>

theorem hasMaxCapViolation_iff:
  "(hasMaxCapViolation r pin \<longleftrightarrow>
      (\<exists>port. libertyPort (m_network r) pin = Some port
            \<and> snd (capacitanceLimit port MinMax_max)
            \<and> loadCap r pin > fst (capacitanceLimit port MinMax_max)))
   \<and> (libertyPort (m_network r) pin = None \<longrightarrow> \<not> hasMaxCapViolation r pin)
   \<and> (\<forall>port. libertyPort (m_network r) pin = Some port
          \<and> \<not> snd (capacitanceLimit port MinMax_max) \<longrightarrow> \<not> hasMaxCapViolation r pin)"
  by (auto simp: hasMaxCapViolation_def split: option.splits prod.splits)

text \<open>
  In the example design the driver \<open>u1/Z\<close> has the limit 8 and the load 24, the pin
  \<open>u1/Q\<close> has no library port, and the port of \<open>u2/A\<close> declares no limit.
\<close>

theorem hasMaxCapViolation_iff_witness:
  "hasMaxCapViolation ex_resizer (''u1'', ''Z'')
   \<and> libertyPort (m_network ex_resizer) (''u1'', ''Q'') = None
   \<and> \<not> hasMaxCapViolation ex_resizer (''u1'', ''Q'')
   \<and> \<not> snd (capacitanceLimit (the (libertyPort (m_network ex_resizer) (''u2'', ''A''))) MinMax_max)
   \<and> \<not> hasMaxCapViolation ex_resizer (''u2'', ''A'')"
  using hasMaxCapViolation_iff [of ex_resizer "(''u1'', ''Z'')"]
        hasMaxCapViolation_iff [of ex_resizer "(''u1'', ''Q'')"]
        hasMaxCapViolation_iff [of ex_resizer "(''u2'', ''A'')"]
  by (simp add: ex_resizer_def ex_network_def ex_drvr_port_def ex_port_def)

section \<open>Facts about the example design and the fuzzy comparisons\<close>

lemmas ex_design_defs =
  ex_resizer_def ex_network_def ex_port_def ex_arc_def ex_buffer_cell_def ex_buffer_model_def
  ex_driver_model_def ex_drvr_port_def ex_tree_def ex_steiner_def ex_load2_def ex_load3_def

lemmas rebuffer_defs =
  addWireAndBuffer_def bufferRequired_def bufferDelay_def gateDelay_def
  bufferInputCapacitance_def portCapacitance_def pinCapacitance_def
  sta_fuzzyGreater_def sta_fuzzyLess_def sta_fuzzyEqual_def

lemma sta_fuzzyGreater_irrefl: "\<not> sta_fuzzyGreater a a"
  by (simp add: sta_fuzzyGreater_def)

lemma sta_fuzzyGreater_trans:
  "sta_fuzzyGreater a b \<Longrightarrow> sta_fuzzyGreater b c \<Longrightarrow> sta_fuzzyGreater a c"
  unfolding sta_fuzzyGreater_def sta_fuzzyEqual_def
  by (auto simp: max_def abs_if split: if_splits)

section \<open>Wire and buffer options\<close>

lemma addWireAndBuffer_iter_fst:
  "fst (addWireAndBuffer_iter r B wc wd pl Z (Z1, best, best_ref))
   = Z1 @ map (wire_option wc wd pl) Z"
  by (induction Z arbitrary: Z1 best best_ref) (simp_all add: Let_def wire_option_def)

lemma addWireAndBuffer_iter_ref:
  "snd (snd (addWireAndBuffer_iter r B wc wd pl Z (Z1, best, best_ref))) = Some p
   \<Longrightarrow> p \<in> set Z \<or> best_ref = Some p"
  by (induction Z arbitrary: Z1 best best_ref) (auto simp: Let_def split: if_splits)

lemma addWireAndBuffer_unfold:
  "addWireAndBuffer r Z k prev B =
     (let st = addWireAndBuffer_iter r B (wire_cap_of r k prev) (wire_delay_of r k prev)
                 (tree_location prev) Z ([], - INF_float r, None)
      in case snd (snd st) of
           Some p \<Rightarrow> fst st @ [RebufferOption buffer (bufferInputCapacitance r B) (fst (snd st))
                                  None (tree_location prev) (Some p) None]
         | None \<Rightarrow> fst st)"
  by (auto simp: addWireAndBuffer_def Let_def wire_cap_of_def wire_delay_of_def wire_length_of_def
      split: prod.splits option.splits)

lemma addWireAndBuffer_refs:
  "z \<in> set (addWireAndBuffer r Z k prev B) \<Longrightarrow> \<exists>p\<in>set Z. ref z = Some p"
  using addWireAndBuffer_iter_ref [of r B "wire_cap_of r k prev" "wire_delay_of r k prev"
          "tree_location prev" Z "[]" "- INF_float r" None]
  by (auto simp: addWireAndBuffer_unfold Let_def addWireAndBuffer_iter_fst wire_option_def
      split: option.splits)

lemma addWireAndBuffer_nonempty: "Z \<noteq> [] \<Longrightarrow> addWireAndBuffer r Z k prev B \<noteq> []"
  by (auto simp: addWireAndBuffer_unfold Let_def addWireAndBuffer_iter_fst split: option.splits)

lemma addWireAndBuffer_iter_none:
  "\<forall>q\<in>set Z. \<not> fuzzyGreater r (bufferRequired (wire_option wc wd pl q) B r) best
   \<Longrightarrow> addWireAndBuffer_iter r B wc wd pl Z (Z1, best, best_ref)
       = (Z1 @ map (wire_option wc wd pl) Z, best, best_ref)"
  by (induction Z arbitrary: Z1) (simp_all add: Let_def wire_option_def)

lemma addWireAndBuffer_iter_best:
  assumes irrefl: "\<forall>a. \<not> fuzzyGreater r a a"
    and trans: "\<forall>a b c. fuzzyGreater r a b \<longrightarrow> fuzzyGreater r b c \<longrightarrow> fuzzyGreater r a c"
  shows "\<forall>q\<in>S. \<not> fuzzyGreater r (bufferRequired (wire_option wc wd pl q) B r) best
   \<Longrightarrow> (best_ref = None \<and> best = b0)
       \<or> (\<exists>p\<in>S. best_ref = Some p \<and> best = bufferRequired (wire_option wc wd pl p) B r)
   \<Longrightarrow> addWireAndBuffer_iter r B wc wd pl Z (Z1, best, best_ref) = (Z1', best', best_ref')
   \<Longrightarrow> (\<forall>q\<in>S \<union> set Z. \<not> fuzzyGreater r (bufferRequired (wire_option wc wd pl q) B r) best')
       \<and> ((best_ref' = None \<and> best' = b0)
          \<or> (\<exists>p\<in>S \<union> set Z. best_ref' = Some p
                \<and> best' = bufferRequired (wire_option wc wd pl p) B r))"
proof (induction Z arbitrary: Z1 best best_ref S)
  case Nil
  then show ?case by simp
next
  case (Cons p Z)
  let ?rt = "bufferRequired (wire_option wc wd pl p) B r"
  show ?case
  proof (cases "fuzzyGreater r ?rt best")
    case True
    have seen: "\<forall>q\<in>insert p S. \<not> fuzzyGreater r (bufferRequired (wire_option wc wd pl q) B r) ?rt"
      using Cons.prems(1) True irrefl trans by blast
    have run: "addWireAndBuffer_iter r B wc wd pl Z (Z1 @ [wire_option wc wd pl p], ?rt, Some p)
               = (Z1', best', best_ref')"
      using Cons.prems(3) True by (simp add: Let_def wire_option_def)
    have "(\<forall>q\<in>insert p S \<union> set Z.
             \<not> fuzzyGreater r (bufferRequired (wire_option wc wd pl q) B r) best')
       \<and> ((best_ref' = None \<and> best' = b0)
          \<or> (\<exists>q\<in>insert p S \<union> set Z. best_ref' = Some q
                \<and> best' = bufferRequired (wire_option wc wd pl q) B r))"
      by (rule Cons.IH [OF seen _ run]) simp
    then show ?thesis by simp
  next
    case False
    have seen: "\<forall>q\<in>insert p S. \<not> fuzzyGreater r (bufferRequired (wire_option wc wd pl q) B r) best"
      using Cons.prems(1) False by simp
    have ref: "(best_ref = None \<and> best = b0)
       \<or> (\<exists>q\<in>insert p S. best_ref = Some q \<and> best = bufferRequired (wire_option wc wd pl q) B r)"
      using Cons.prems(2) by blast
    have run: "addWireAndBuffer_iter r B wc wd pl Z (Z1 @ [wire_option wc wd pl p], best, best_ref)
               = (Z1', best', best_ref')"
      using Cons.prems(3) False by (simp add: Let_def wire_option_def)
    have "(\<forall>q\<in>insert p S \<union> set Z.
             \<not> fuzzyGreater r (bufferRequired (wire_option wc wd pl q) B r) best')
       \<and> ((best_ref' = None \<and> best' = b0)
          \<or> (\<exists>q\<in>insert p S \<union> set Z. best_ref' = Some q
                \<and> best' = bufferRequired (wire_option wc wd pl q) B r))"
      by (rule Cons.IH [OF seen ref run])
    then show ?thesis by simp
  qed
qed

lemma bufferRequired_wire_option:
  "bufferRequired (wire_option wc wd pl q) B r = required q - wd - bufferDelay r B (cap q + wc)"
  by (simp add: bufferRequired_def wire_option_def)

text \<open>
  Claim C1, as the code has it. The buffer option is made from the wire options: for
  \<open>p\<close> in \<open>Z\<close> the loop weighs the required time of the wire option of \<open>p\<close> less
  the buffer delay at the wire option's capacitance, that is
  \<open>required p - wire_delay - bufferDelay (cap p + wire_cap)\<close>. When the comparison
  \<open>fuzzyGreater\<close> is irreflexive and transitive: if that quantity is fuzzy-greater than
  \<open>-INF\<close> for some member of \<open>Z\<close>, the result is the wire options of \<open>Z\<close>
  followed by exactly one buffer option, whose capacitance is the buffer's input
  capacitance, whose required time is that quantity for a member \<open>p\<close> of \<open>Z\<close>,
  whose location is the parent's and whose ref is \<open>p\<close>, and no member of \<open>Z\<close> has
  a fuzzy-greater quantity than \<open>p\<close>; if it is fuzzy-greater than \<open>-INF\<close> for no
  member, the result is the wire options alone.
\<close>

theorem addWireAndBuffer_buffer_option:
  assumes irrefl: "\<forall>a. \<not> fuzzyGreater r a a"
    and trans: "\<forall>a b c. fuzzyGreater r a b \<longrightarrow> fuzzyGreater r b c \<longrightarrow> fuzzyGreater r a c"
  shows "((\<exists>q\<in>set Z. fuzzyGreater r (required q - wire_delay_of r k prev
                                       - bufferDelay r buffer_cell (cap q + wire_cap_of r k prev))
                                     (- INF_float r)) \<longrightarrow>
          (\<exists>p\<in>set Z.
             addWireAndBuffer r Z k prev buffer_cell =
               map (wire_option (wire_cap_of r k prev) (wire_delay_of r k prev) (tree_location prev)) Z
               @ [RebufferOption buffer (bufferInputCapacitance r buffer_cell)
                    (required p - wire_delay_of r k prev
                     - bufferDelay r buffer_cell (cap p + wire_cap_of r k prev))
                    None (tree_location prev) (Some p) None]
             \<and> (\<forall>q\<in>set Z.
                   \<not> fuzzyGreater r
                       (required q - wire_delay_of r k prev
                        - bufferDelay r buffer_cell (cap q + wire_cap_of r k prev))
                       (required p - wire_delay_of r k prev
                        - bufferDelay r buffer_cell (cap p + wire_cap_of r k prev)))))
       \<and> ((\<forall>q\<in>set Z. \<not> fuzzyGreater r (required q - wire_delay_of r k prev
                                       - bufferDelay r buffer_cell (cap q + wire_cap_of r k prev))
                                     (- INF_float r)) \<longrightarrow>
          addWireAndBuffer r Z k prev buffer_cell =
            map (wire_option (wire_cap_of r k prev) (wire_delay_of r k prev) (tree_location prev)) Z)"
proof -
  let ?wc = "wire_cap_of r k prev"
  let ?wd = "wire_delay_of r k prev"
  let ?pl = "tree_location prev"
  let ?rt = "\<lambda>q. bufferRequired (wire_option ?wc ?wd ?pl q) buffer_cell r"
  obtain Z1 best best_ref where run:
    "addWireAndBuffer_iter r buffer_cell ?wc ?wd ?pl Z ([], - INF_float r, None) = (Z1, best, best_ref)"
    by (cases "addWireAndBuffer_iter r buffer_cell ?wc ?wd ?pl Z ([], - INF_float r, None)") auto
  have Z1: "Z1 = map (wire_option ?wc ?wd ?pl) Z"
    using addWireAndBuffer_iter_fst [of r buffer_cell ?wc ?wd ?pl Z "[]" "- INF_float r" None] run
    by simp
  have inv: "(\<forall>q\<in>set Z. \<not> fuzzyGreater r (?rt q) best)
       \<and> ((best_ref = None \<and> best = - INF_float r)
          \<or> (\<exists>p\<in>set Z. best_ref = Some p \<and> best = ?rt p))"
    using addWireAndBuffer_iter_best [OF irrefl trans, of "{}" ?wc ?wd ?pl buffer_cell
            "- INF_float r" None "- INF_float r" Z "[]" Z1 best best_ref] run
    by simp
  have some: "(\<exists>q\<in>set Z. fuzzyGreater r (?rt q) (- INF_float r)) \<Longrightarrow>
     \<exists>p\<in>set Z. addWireAndBuffer r Z k prev buffer_cell =
        map (wire_option ?wc ?wd ?pl) Z
        @ [RebufferOption buffer (bufferInputCapacitance r buffer_cell) (?rt p) None ?pl (Some p) None]
      \<and> (\<forall>q\<in>set Z. \<not> fuzzyGreater r (?rt q) (?rt p))"
  proof -
    assume ex: "\<exists>q\<in>set Z. fuzzyGreater r (?rt q) (- INF_float r)"
    with inv obtain p where p: "p \<in> set Z" "best_ref = Some p" "best = ?rt p"
      by blast
    have "addWireAndBuffer r Z k prev buffer_cell =
        map (wire_option ?wc ?wd ?pl) Z
        @ [RebufferOption buffer (bufferInputCapacitance r buffer_cell) (?rt p) None ?pl (Some p) None]"
      using run p Z1 by (simp add: addWireAndBuffer_unfold)
    with inv p show ?thesis by blast
  qed
  have none: "(\<forall>q\<in>set Z. \<not> fuzzyGreater r (?rt q) (- INF_float r)) \<Longrightarrow>
     addWireAndBuffer r Z k prev buffer_cell = map (wire_option ?wc ?wd ?pl) Z"
    using addWireAndBuffer_iter_none [of Z r ?wc ?wd ?pl buffer_cell "- INF_float r" "[]" None]
    by (simp add: addWireAndBuffer_unfold)
  show ?thesis
    using some none unfolding bufferRequired_wire_option by blast
qed

text \<open>
  The theorem on the example design: the load \<open>u2/A\<close> (capacitance 10, required at 0)
  seen from the Steiner point, over a wire of length 2.
\<close>

theorem addWireAndBuffer_buffer_option_witness:
  "fuzzyGreater ex_resizer (- 16) (- INF_float ex_resizer)
   \<and> addWireAndBuffer ex_resizer [ex_sink2] ex_load2 ex_steiner ex_buffer_cell =
       [RebufferOption wire 12 (- 4) None (DefPt 1 0) (Some ex_sink2) None,
        RebufferOption buffer 1 (- 16) None (DefPt 1 0) (Some ex_sink2) None]"
proof -
  have irrefl: "\<forall>a. \<not> fuzzyGreater ex_resizer a a"
    by (simp add: ex_resizer_def sta_fuzzyGreater_irrefl)
  have trans: "\<forall>a b c. fuzzyGreater ex_resizer a b \<longrightarrow> fuzzyGreater ex_resizer b c
                 \<longrightarrow> fuzzyGreater ex_resizer a c"
    using sta_fuzzyGreater_trans by (auto simp: ex_resizer_def)
  have g: "fuzzyGreater ex_resizer (- 16) (- INF_float ex_resizer)"
    by (simp add: ex_resizer_def sta_fuzzyGreater_def sta_fuzzyEqual_def)
  have wc: "wire_cap_of ex_resizer ex_load2 ex_steiner = 2"
    by (simp add: wire_cap_of_def wire_length_of_def ex_design_defs)
  have wd: "wire_delay_of ex_resizer ex_load2 ex_steiner = 4"
    by (simp add: wire_delay_of_def wire_length_of_def ex_design_defs)
  have bd: "bufferDelay ex_resizer ex_buffer_cell 12 = 12"
    by (simp add: rebuffer_defs ex_design_defs)
  have bc: "bufferInputCapacitance ex_resizer ex_buffer_cell = 1"
    by (simp add: rebuffer_defs ex_design_defs)
  have pl: "tree_location ex_steiner = DefPt 1 0"
    by (simp add: ex_steiner_def)
  show ?thesis
    using addWireAndBuffer_buffer_option [OF irrefl trans, of "[ex_sink2]" ex_load2 ex_steiner
            ex_buffer_cell] g
    by (simp add: wc wd bd bc pl wire_option_def ex_sink2_def)
qed

text \<open>
  Claim C1 as stated fails: it gives the buffer option the required time
  \<open>required p - bufferDelay (cap p)\<close> of the option \<open>p\<close> itself, which is \<open>-10\<close>
  here, and the code gives it \<open>-16\<close>, the wire's delay 4 and the wire's capacitance 2
  included.
\<close>

theorem addWireAndBuffer_required_counterexample:
  "addWireAndBuffer ex_resizer [ex_sink2] ex_load2 ex_steiner ex_buffer_cell =
     [RebufferOption wire 12 (- 4) None (DefPt 1 0) (Some ex_sink2) None,
      RebufferOption buffer 1 (- 16) None (DefPt 1 0) (Some ex_sink2) None]
   \<and> required ex_sink2 - bufferDelay ex_resizer ex_buffer_cell (cap ex_sink2) = - 10"
  by (simp add: rebuffer_defs ex_design_defs ex_sink2_def Let_def)

section \<open>Capacitance of sink options\<close>

text \<open>
  Claim C10. After \<open>initCorner\<close>, which every entry point runs before the pass, the
  capacitance of a pin is the larger of the rise and fall capacitances of its library
  port at the max condition, and 0 when the pin has no library port; and at a Steiner
  tree leaf whose pin is a load, every option \<open>rebufferBottomUp\<close> returns refers to a
  sink option of that pin with that capacitance.
\<close>

theorem sink_option_capacitance:
  "pinCapacitance (initCorner r corner) pin =
     (case libertyPort (m_network r) pin of
        Some port \<Rightarrow> max (capacitance port rise MinMax_max) (capacitance port fall MinMax_max)
      | None \<Rightarrow> 0)
   \<and> (isLoad (m_network r) pin \<longrightarrow>
        rebufferBottomUp (initCorner r corner) (Pt (Some pin) loc l rt) prev buffer_cell \<noteq> []
        \<and> (\<forall>z \<in> set (rebufferBottomUp (initCorner r corner) (Pt (Some pin) loc l rt) prev buffer_cell).
              \<exists>s. ref z = Some s \<and> type s = sink \<and> loadPin s = Some pin
                 \<and> cap s = pinCapacitance (initCorner r corner) pin))"
proof -
  have net: "m_network (initCorner r corner) = m_network r"
    by (simp add: initCorner_def)
  have mm: "m_min_max (initCorner r corner) = MinMax_max"
    by (simp add: initCorner_def)
  have c: "pinCapacitance (initCorner r corner) pin =
     (case libertyPort (m_network r) pin of
        Some port \<Rightarrow> max (capacitance port rise MinMax_max) (capacitance port fall MinMax_max)
      | None \<Rightarrow> 0)"
    by (simp add: pinCapacitance_def portCapacitance_def net mm split: option.splits)
  have "isLoad (m_network r) pin \<Longrightarrow>
        rebufferBottomUp (initCorner r corner) (Pt (Some pin) loc l rt) prev buffer_cell \<noteq> []
        \<and> (\<forall>z \<in> set (rebufferBottomUp (initCorner r corner) (Pt (Some pin) loc l rt) prev buffer_cell).
              \<exists>s. ref z = Some s \<and> type s = sink \<and> loadPin s = Some pin
                 \<and> cap s = pinCapacitance (initCorner r corner) pin)"
    using addWireAndBuffer_nonempty addWireAndBuffer_refs
    by (fastforce simp: net Let_def)
  with c show ?thesis by blast
qed

theorem sink_option_capacitance_witness:
  "isLoad (m_network ex_resizer) (''u2'', ''A'')
   \<and> pinCapacitance (initCorner ex_resizer ''default'') (''u2'', ''A'') = 10
   \<and> (\<exists>s. ref (hd (rebufferBottomUp (initCorner ex_resizer ''default'') ex_load2 ex_steiner
                      ex_buffer_cell)) = Some s
          \<and> type s = sink \<and> cap s = 10)"
proof -
  let ?r = "initCorner ex_resizer ''default''"
  let ?Z = "rebufferBottomUp ?r ex_load2 ex_steiner ex_buffer_cell"
  have load: "isLoad (m_network ex_resizer) (''u2'', ''A'')"
    by (simp add: ex_resizer_def ex_network_def)
  have port: "libertyPort (m_network ex_resizer) (''u2'', ''A'')
              = Some (ex_port ''A'' ''INV'' ex_driver_model 10)"
    by (simp add: ex_resizer_def ex_network_def)
  note inst = sink_option_capacitance [of ex_resizer "''default''" "(''u2'', ''A'')" "DefPt 2 1"
               null_pt null_pt ex_steiner ex_buffer_cell]
  have c: "pinCapacitance ?r (''u2'', ''A'') = 10"
    using inst by (simp add: port) (simp add: ex_port_def)
  have ne: "?Z \<noteq> []" and all: "\<forall>z\<in>set ?Z. \<exists>s. ref z = Some s \<and> type s = sink
        \<and> loadPin s = Some (''u2'', ''A'') \<and> cap s = pinCapacitance ?r (''u2'', ''A'')"
    using inst load unfolding ex_load2_def by blast+
  from ne have "hd ?Z \<in> set ?Z" by simp
  with all c have "\<exists>s. ref (hd ?Z) = Some s \<and> type s = sink \<and> cap s = 10" by fastforce
  with load c show ?thesis by blast
qed

section \<open>The target load loop\<close>

lemmas float_defs = float_round_def double_round_def fp_round_def ulp_exponent_def pow2_def
  round_to_even_def scale_up.simps scale_down.simps

text \<open>
  The rounding at work: a tie goes to the even neighbour, and at a load of \<open>2 ^ -15\<close>
  farads the step of 1 pF is less than half the distance to the next
  \<^verbatim>\<open>float\<close>, so adding it changes nothing.
\<close>

lemma float_round_ties:
  "float_round (1 + 1 / 2 ^ 24) = 1"
  "float_round (1 + 3 / 2 ^ 24) = 1 + 1 / 2 ^ 22"
  "float_round (- (1 / 3)) = - (11184811 / 2 ^ 25)"
  "float_round (3 / 2 ^ 150) = 1 / 2 ^ 148"
  by (simp_all add: float_defs Let_def)

lemma cap_init_value: "cap_init = 2305843 / 2 ^ 61"
  by (simp add: cap_init_def float_defs Let_def)

lemma cap_tol_value:
  "float_round (double_round (cap_init * double_round (1 / 1000))) = 9444733 / 2 ^ 73"
  by (simp add: cap_init_value float_defs Let_def)

lemma float_round_absorbs: "float_round (1 / 2 ^ 15 + cap_init) = 1 / 2 ^ 15"
  by (simp add: cap_init_value float_defs Let_def)

lemma findTargetLoad_loop_return:
  "\<not> cap_step > cap_tol \<Longrightarrow>
   findTargetLoad_loop gate_model in_slew cap_tol load_cap cap_step = Some load_cap"
  by (subst findTargetLoad_loop.simps) simp

lemma findTargetLoad_loop_over:
  "cap_step > cap_tol \<Longrightarrow> snd (gate_model 0 load_cap) > in_slew \<Longrightarrow>
   findTargetLoad_loop gate_model in_slew cap_tol load_cap cap_step =
   findTargetLoad_loop gate_model in_slew cap_tol
     (float_round (float_round (load_cap - cap_step) + float_round (double_round (cap_step / 2))))
     (float_round (double_round (cap_step / 2)))"
  by (subst findTargetLoad_loop.simps) (simp add: split_beta Let_def)

lemma findTargetLoad_loop_under:
  "cap_step > cap_tol \<Longrightarrow> \<not> snd (gate_model 0 load_cap) > in_slew \<Longrightarrow>
   findTargetLoad_loop gate_model in_slew cap_tol load_cap cap_step =
   findTargetLoad_loop gate_model in_slew cap_tol (float_round (load_cap + cap_step)) cap_step"
  by (subst findTargetLoad_loop.simps) (simp add: split_beta)

text \<open>
  While the output slew does not exceed the target, the loop adds the step to the load
  and leaves the step as it is. When that is so at every load it reaches, the loop does
  not return.
\<close>

lemma findTargetLoad_loop_diverges_aux:
  assumes never: "\<forall>k::nat. \<not> snd (gate_model 0
                     (((\<lambda>l. float_round (l + cap_step)) ^^ k) start_cap)) > in_slew"
    and big: "cap_step > cap_tol"
    and ret: "findTargetLoad_loop gate_model' in_slew' cap_tol' load_cap cap_step' = Some y"
  shows "\<not> (gate_model' = gate_model \<and> in_slew' = in_slew \<and> cap_tol' = cap_tol
            \<and> cap_step' = cap_step
            \<and> (\<exists>k::nat. load_cap = ((\<lambda>l. float_round (l + cap_step)) ^^ k) start_cap))"
proof (rule findTargetLoad_loop.raw_induct
         [where P = "\<lambda>gm sl tol lc st y.
                       \<not> (gm = gate_model \<and> sl = in_slew \<and> tol = cap_tol \<and> st = cap_step
                          \<and> (\<exists>k::nat. lc = ((\<lambda>l. float_round (l + cap_step)) ^^ k) start_cap))",
          OF _ ret])
  fix loop gm sl tol lc st res
  assume IH: "\<And>gm sl tol lc st res. loop gm sl tol lc st = Some res \<Longrightarrow>
                \<not> (gm = gate_model \<and> sl = in_slew \<and> tol = cap_tol \<and> st = cap_step
                   \<and> (\<exists>k::nat. lc = ((\<lambda>l. float_round (l + cap_step)) ^^ k) start_cap))"
    and body: "(if tol < st
                then let (arc_delay, arc_slew) = gm 0 lc
                     in if sl < arc_slew
                        then let load_cap1 = float_round (lc - st);
                                 cap_step1 = float_round (double_round (st / 2))
                             in loop gm sl tol (float_round (load_cap1 + cap_step1)) cap_step1
                        else loop gm sl tol (float_round (lc + st)) st
                else Some lc) = Some res"
  show "\<not> (gm = gate_model \<and> sl = in_slew \<and> tol = cap_tol \<and> st = cap_step
            \<and> (\<exists>k::nat. lc = ((\<lambda>l. float_round (l + cap_step)) ^^ k) start_cap))"
  proof
    assume a: "gm = gate_model \<and> sl = in_slew \<and> tol = cap_tol \<and> st = cap_step
               \<and> (\<exists>k::nat. lc = ((\<lambda>l. float_round (l + cap_step)) ^^ k) start_cap)"
    then obtain k :: nat where k: "lc = ((\<lambda>l. float_round (l + cap_step)) ^^ k) start_cap"
      by blast
    have under: "\<not> snd (gate_model 0 lc) > in_slew" using never k by simp
    have "loop gate_model in_slew cap_tol (float_round (lc + cap_step)) cap_step = Some res"
      using body a big under by (simp add: split_beta)
    moreover have "float_round (lc + cap_step)
                   = ((\<lambda>l. float_round (l + cap_step)) ^^ Suc k) start_cap"
      using k by simp
    ultimately show False using IH by blast
  qed
qed

lemma findTargetLoad_loop_diverges:
  assumes "\<forall>k::nat. \<not> snd (gate_model 0
                     (((\<lambda>l. float_round (l + cap_step)) ^^ k) load_cap)) > in_slew"
    and "cap_step > cap_tol"
  shows "findTargetLoad_loop gate_model in_slew cap_tol load_cap cap_step = None"
proof (cases "findTargetLoad_loop gate_model in_slew cap_tol load_cap cap_step")
  case None
  then show ?thesis .
next
  case (Some y)
  from findTargetLoad_loop_diverges_aux [where gate_model = gate_model and in_slew = in_slew
         and start_cap = load_cap and cap_step = cap_step and cap_tol = cap_tol
         and gate_model' = gate_model and in_slew' = in_slew and cap_tol' = cap_tol
         and load_cap = load_cap and cap_step' = cap_step and y = y] assms Some
  have "\<not> (\<exists>k::nat. load_cap = ((\<lambda>l. float_round (l + cap_step)) ^^ k) load_cap)" by simp
  moreover have "load_cap = ((\<lambda>l. float_round (l + cap_step)) ^^ (0::nat)) load_cap" by simp
  ultimately have False by blast
  then show ?thesis ..
qed

text \<open>
  So \<open>findTargetLoad\<close> returns only when the output slew exceeds the target at one of
  the loads that the additions of 1 pF reach.
\<close>

lemma findTargetLoad_returns_only_if:
  assumes m: "model arc = Some gate_model"
    and ret: "findTargetLoad r cell arc in_slew = Some load_cap"
  shows "\<exists>k::nat. snd (gate_model 0 (((\<lambda>l. float_round (l + cap_init)) ^^ k) cap_init)) > in_slew"
proof (rule ccontr)
  assume "\<not> (\<exists>k::nat. snd (gate_model 0 (((\<lambda>l. float_round (l + cap_init)) ^^ k) cap_init))
                > in_slew)"
  then have "\<forall>k::nat. \<not> snd (gate_model 0 (((\<lambda>l. float_round (l + cap_init)) ^^ k) cap_init))
                > in_slew"
    by blast
  moreover have "cap_init > float_round (double_round (cap_init * double_round (1 / 1000)))"
    unfolding cap_tol_value by (simp add: cap_init_value)
  ultimately have "findTargetLoad_loop gate_model in_slew
                     (float_round (double_round (cap_init * double_round (1 / 1000))))
                     cap_init cap_init = None"
    by (rule findTargetLoad_loop_diverges)
  with m ret show False by (simp add: findTargetLoad_def)
qed

text \<open>
  The loop does return on the model of 40 per pF with the target slew 100: the slew
  exceeds the target at 3 pF, and after ten halvings of the step the load is 2.5 pF.
\<close>

lemma findTargetLoad_ex_returns:
  "findTargetLoad ex_resizer ex_buffer_cell (ex_arc rise ex_slew_model) 100
   = Some (5766859 / 2 ^ 61)"
proof -
  have "findTargetLoad_loop ex_slew_model 100 (9444733 / 2 ^ 73) (2305843 / 2 ^ 61)
          (2305843 / 2 ^ 61) = Some (5766859 / 2 ^ 61)"
    by (simp add: findTargetLoad_loop_over findTargetLoad_loop_under findTargetLoad_loop_return
          ex_slew_model_def float_defs Let_def)
  then show ?thesis
    unfolding findTargetLoad_def cap_tol_value by (simp add: cap_init_value ex_arc_def)
qed

text \<open>
  Claim C7 on a gate model whose output slew is 5 at every load, with the target slew
  10. The slew never exceeds the target, so the step is never halved: it stays at 1 pF,
  above the tolerance, and \<open>findTargetLoad\<close> does not return. The source's comment
  says the function finds "the load capacitance that will cause the output slew to be
  equal to in_slew", and its caller adds the returned value to a sum.
\<close>

theorem findTargetLoad_flat_never_returns:
  "model (ex_arc rise ex_flat_model) = Some ex_flat_model
   \<and> findTargetLoad ex_resizer ex_buffer_cell (ex_arc rise ex_flat_model) 10 = None"
proof -
  have "\<forall>k::nat. \<not> snd (ex_flat_model 0 (((\<lambda>l. float_round (l + cap_init)) ^^ k) cap_init))
          > 10"
    by (simp add: ex_flat_model_def)
  moreover have "cap_init > float_round (double_round (cap_init * double_round (1 / 1000)))"
    unfolding cap_tol_value by (simp add: cap_init_value)
  ultimately have "findTargetLoad_loop ex_flat_model 10
                     (float_round (double_round (cap_init * double_round (1 / 1000))))
                     cap_init cap_init = None"
    by (rule findTargetLoad_loop_diverges)
  then show ?thesis
    by (simp add: findTargetLoad_def ex_arc_def)
qed

section \<open>Unconstrained drivers\<close>

text \<open>
  Claim C9. When the required time of the driver pin is infinite (\<open>fuzzyInf\<close>),
  \<open>rebuffer\<close> returns the resizer it was given: the nets, the instances, the net of
  every pin, the inserted-buffer and rebuffered-net counters and all other state are
  unchanged. (The source dereferences the Steiner tree before the test, so a null tree
  does not return.)
\<close>

theorem rebuffer_unconstrained:
  assumes "fuzzyInf r (pinRequired r drvr_pin)"
  shows "rebuffer r drvr_pin buffer_cell =
           (if makeSteinerTree r (drvr_net r drvr_pin) = None then None else Some r)"
  using assms
  by (auto simp: rebuffer_def drvr_net_def Let_def split: option.splits)

theorem rebuffer_unconstrained_witness:
  "fuzzyInf ex_unconstrained (pinRequired ex_unconstrained (''u1'', ''Z''))
   \<and> makeSteinerTree ex_unconstrained (drvr_net ex_unconstrained (''u1'', ''Z'')) = Some ex_tree
   \<and> rebuffer ex_unconstrained (''u1'', ''Z'') ex_buffer_cell = Some ex_unconstrained"
proof -
  have inf: "fuzzyInf ex_unconstrained (pinRequired ex_unconstrained (''u1'', ''Z''))"
    by (simp add: ex_unconstrained_def ex_resizer_def sta_fuzzyInf_def sta_fuzzyEqual_def)
  have tree: "makeSteinerTree ex_unconstrained (drvr_net ex_unconstrained (''u1'', ''Z''))
              = Some ex_tree"
    by (simp add: ex_unconstrained_def ex_resizer_def ex_network_def drvr_net_def)
  from rebuffer_unconstrained [OF inf, of ex_buffer_cell] inf tree show ?thesis
    by simp
qed

section \<open>The cell the resizer chooses\<close>

lemma findBestCell_best:
  "findBestCell r load_cap cells (best_cell, best_ratio) = (best_cell', best_ratio')
   \<Longrightarrow> best_ratio \<le> best_ratio'
       \<and> (\<forall>c\<in>set cells. ratio_folded r c load_cap \<le> best_ratio')
       \<and> ((best_cell' = best_cell \<and> best_ratio' = best_ratio)
          \<or> (\<exists>c\<in>set cells. best_cell' = Some c \<and> best_ratio' = ratio_folded r c load_cap))"
proof (induction cells arbitrary: best_cell best_ratio)
  case Nil
  then show ?case by simp
next
  case (Cons c cells)
  show ?case
  proof (cases "ratio_folded r c load_cap > best_ratio")
    case True
    then have "findBestCell r load_cap cells (Some c, ratio_folded r c load_cap)
               = (best_cell', best_ratio')"
      using Cons.prems by (simp add: ratio_folded_def Let_def)
    from Cons.IH [OF this] True show ?thesis by auto
  next
    case False
    then have "findBestCell r load_cap cells (best_cell, best_ratio) = (best_cell', best_ratio')"
      using Cons.prems by (simp add: ratio_folded_def Let_def)
    from Cons.IH [OF this] False show ?thesis by auto
  qed
qed

lemma find_replaced:
  "map_option inst_cell
     (find (\<lambda>i. inst_name i = inst)
        (map (\<lambda>i. if inst_name i = inst then i\<lparr>inst_cell := c\<rparr> else i) insts))
   = map_option (\<lambda>i. c) (find (\<lambda>i. inst_name i = inst) insts)"
  by (induction insts) auto

lemma network_cell_replaceCell:
  "network_cell (m_network (replaceCell r inst c)) inst
   = map_option (\<lambda>i. c) (network_cell (m_network r) inst)"
  by (simp add: network_cell_def replaceCell_def find_replaced option.map_comp comp_def)

text \<open>
  Claim C3, as the code has it. When \<open>resizeToTargetSlew1\<close> replaces the cell of an
  instance (the replacement counter changes), the candidate it selected is a member of
  the equivalence group other than the current library cell, the instance's new cell is
  that candidate or its LEF cell, and the candidate's folded ratio is greatest in the
  group: \<open>ratio_folded c \<le> ratio_folded best_cell\<close> for every \<open>c\<close> of the group, so
  for the replaced cell when it is in its group. The distance \<open>\<bar>ratio - 1\<bar>\<close> of the
  claim is not what the pass improves.
\<close>

theorem resize_best_folded_ratio:
  assumes cell: "libertyCell (m_network r) inst = Some cell"
    and out: "singleOutputPin inst (m_network r) = Some output"
    and equiv: "equivCells cell = Some equiv_cells"
    and replaced: "m_resize_count (resizeToTargetSlew1 r inst) \<noteq> m_resize_count r"
  shows "\<exists>best_cell\<in>set equiv_cells.
           best_cell \<noteq> cell_name cell
           \<and> (network_cell (m_network (resizeToTargetSlew1 r inst)) inst = Some best_cell
              \<or> (\<exists>best_lef. lefCell (m_network r) best_cell = Some best_lef
                    \<and> network_cell (m_network (resizeToTargetSlew1 r inst)) inst = Some best_lef))
           \<and> (\<forall>c\<in>set equiv_cells.
                 ratio_folded r c (loadCap r output) \<le> ratio_folded r best_cell (loadCap r output))"
proof -
  obtain best best_ratio where run:
    "findBestCell r (loadCap r output) equiv_cells (None, 0) = (best, best_ratio)"
    by (cases "findBestCell r (loadCap r output) equiv_cells (None, 0)") auto
  from cell obtain c0 where c0: "network_cell (m_network r) inst = Some c0"
    by (auto simp: libertyCell_def split: option.splits)
  from replaced cell out equiv run obtain best_cell where best: "best = Some best_cell"
    by (cases best) (auto simp: resizeToTargetSlew1_def Let_def)
  from findBestCell_best [OF run] best
  have mem: "best_cell \<in> set equiv_cells"
    and ratio: "best_ratio = ratio_folded r best_cell (loadCap r output)"
    and all: "\<forall>c\<in>set equiv_cells. ratio_folded r c (loadCap r output) \<le> best_ratio"
    by auto
  have ne: "best_cell \<noteq> cell_name cell"
    using replaced cell out equiv run best
    by (auto simp: resizeToTargetSlew1_def Let_def)
  have new: "network_cell (m_network (resizeToTargetSlew1 r inst)) inst = Some best_cell
     \<or> (\<exists>best_lef. lefCell (m_network r) best_cell = Some best_lef
           \<and> network_cell (m_network (resizeToTargetSlew1 r inst)) inst = Some best_lef)"
    using replaced cell out equiv run best ne c0
    by (auto simp: resizeToTargetSlew1_def Let_def network_cell_replaceCell
             split: option.splits if_splits)
  from mem ne new all ratio show ?thesis by blast
qed

text \<open>
  In the example design the instance \<open>u1\<close> is an \<open>INV\<close> (target load 15) with load
  24 and is replaced by \<open>INVX2\<close> (target load 36): the folded ratio rises from 5/8 to
  2/3.
\<close>

lemma ex_libertyCell_u1:
  "libertyCell (m_network ex_resizer) ''u1'' =
     Some \<lparr>cell_name = ''INV'',
           bufferPorts = (ex_port ''A'' ''INV'' ex_driver_model 10,
                          ex_port ''Z'' ''INV'' ex_driver_model 0),
           equivCells = Some [''INV'', ''INVX2'']\<rparr>"
  by (simp add: libertyCell_def network_cell_def ex_resizer_def ex_network_def)

lemma ex_singleOutputPin_u1:
  "singleOutputPin ''u1'' (m_network ex_resizer) = Some (''u1'', ''Z'')"
  by (simp add: singleOutputPin_def ex_resizer_def ex_network_def)

lemma ex_network_cell_u1: "network_cell (m_network ex_resizer) ''u1'' = Some ''INV''"
  by (simp add: network_cell_def ex_resizer_def ex_network_def)

lemma ex_resizeToTargetSlew1_u1:
  "resizeToTargetSlew1 ex_resizer ''u1''
   = (replaceCell ex_resizer ''u1'' ''INVX2'')\<lparr>m_resize_count := m_resize_count ex_resizer + 1\<rparr>"
proof -
  have run: "findBestCell ex_resizer 24 [''INV'', ''INVX2''] (None, 0) = (Some ''INVX2'', 2 / 3)"
    by (simp add: target_load_of_def ex_resizer_def Let_def)
  have load: "loadCap ex_resizer (''u1'', ''Z'') = 24"
    by (simp add: ex_resizer_def)
  have lef: "\<not> isLefCell (m_network ex_resizer) ''INV''"
    by (simp add: ex_resizer_def ex_network_def)
  show ?thesis
    by (simp add: resizeToTargetSlew1_def ex_libertyCell_u1 ex_singleOutputPin_u1
          ex_network_cell_u1 load run lef del: findBestCell.simps)
qed

lemma ex_resized_cell_u1:
  "network_cell (m_network (resizeToTargetSlew1 ex_resizer ''u1'')) ''u1'' = Some ''INVX2''"
  by (simp add: ex_resizeToTargetSlew1_u1 network_cell_replaceCell ex_network_cell_u1)

theorem resize_best_folded_ratio_witness:
  "libertyCell (m_network ex_resizer) ''u1'' \<noteq> None
   \<and> singleOutputPin ''u1'' (m_network ex_resizer) = Some (''u1'', ''Z'')
   \<and> m_resize_count (resizeToTargetSlew1 ex_resizer ''u1'') = 1
   \<and> network_cell (m_network (resizeToTargetSlew1 ex_resizer ''u1'')) ''u1'' = Some ''INVX2''
   \<and> ratio_folded ex_resizer ''INV'' (loadCap ex_resizer (''u1'', ''Z''))
       \<le> ratio_folded ex_resizer ''INVX2'' (loadCap ex_resizer (''u1'', ''Z''))"
proof -
  have count: "m_resize_count (resizeToTargetSlew1 ex_resizer ''u1'') = 1"
    by (simp add: ex_resizeToTargetSlew1_u1) (simp add: ex_resizer_def)
  have replaced: "m_resize_count (resizeToTargetSlew1 ex_resizer ''u1'') \<noteq> m_resize_count ex_resizer"
    by (simp add: ex_resizeToTargetSlew1_u1)
  from resize_best_folded_ratio [OF ex_libertyCell_u1 ex_singleOutputPin_u1 _ replaced]
       ex_resized_cell_u1
  have "ratio_folded ex_resizer ''INV'' (loadCap ex_resizer (''u1'', ''Z''))
       \<le> ratio_folded ex_resizer ''INVX2'' (loadCap ex_resizer (''u1'', ''Z''))"
    by (auto simp: ex_resizer_def ex_network_def)
  with ex_libertyCell_u1 ex_singleOutputPin_u1 count ex_resized_cell_u1 show ?thesis by simp
qed

text \<open>
  Claim C3 as stated fails on that replacement: the distance of the ratio from 1 grows
  from \<open>\<bar>15/24 - 1\<bar> = 3/8\<close> to \<open>\<bar>36/24 - 1\<bar> = 1/2\<close>.
\<close>

theorem resize_distance_counterexample:
  "network_cell (m_network ex_resizer) ''u1'' = Some ''INV''
   \<and> network_cell (m_network (resizeToTargetSlew1 ex_resizer ''u1'')) ''u1'' = Some ''INVX2''
   \<and> \<bar>target_load_of ex_resizer ''INVX2'' / loadCap ex_resizer (''u1'', ''Z'') - 1\<bar>
       > \<bar>target_load_of ex_resizer ''INV'' / loadCap ex_resizer (''u1'', ''Z'') - 1\<bar>"
proof -
  have "\<bar>target_load_of ex_resizer ''INVX2'' / loadCap ex_resizer (''u1'', ''Z'') - 1\<bar>
        > \<bar>target_load_of ex_resizer ''INV'' / loadCap ex_resizer (''u1'', ''Z'') - 1\<bar>"
    by (simp add: target_load_of_def ex_resizer_def)
  with ex_network_cell_u1 ex_resized_cell_u1 show ?thesis by simp
qed

section \<open>Max slew violations\<close>

text \<open>
  \<open>tightest\<close> is the least of the limits that exist, and \<open>None\<close> when none exists.
\<close>

lemma tightest_None: "tightest ls = None \<longleftrightarrow> (\<forall>l \<in> set ls. \<not> snd l)"
  by (induction ls rule: tightest.induct) (auto split: option.splits)

lemma tightest_Some:
  "tightest ls = Some m \<Longrightarrow>
   (\<exists>l \<in> set ls. snd l \<and> fst l = m) \<and> (\<forall>l \<in> set ls. snd l \<longrightarrow> m \<le> fst l)"
proof (induction ls arbitrary: m rule: tightest.induct)
  case 1
  then show ?case by simp
next
  case (2 v e ls)
  show ?case
  proof (cases e)
    case False
    with 2 show ?thesis by simp
  next
    case True
    show ?thesis
    proof (cases "tightest ls")
      case None
      with True 2 tightest_None [of ls] show ?thesis by auto
    next
      case (Some m')
      with True 2 have m: "m = min v m'" by simp
      from 2 True Some
      have IH: "(\<exists>l \<in> set ls. snd l \<and> fst l = m') \<and> (\<forall>l \<in> set ls. snd l \<longrightarrow> m' \<le> fst l)"
        by simp
      show ?thesis
      proof (cases "v \<le> m'")
        case le: True
        with m IH True show ?thesis by (auto simp: min_def)
      next
        case gt: False
        with m IH True show ?thesis by (auto simp: min_def)
      qed
    qed
  qed
qed










section \<open>The levelized list\<close>

lemma set_insert_seq: "set (insert_seq lt v us) = insert v (set us)"
  by (induction us) auto

lemma set_sort_seq: "set (sort_seq lt vs) = set vs"
  unfolding sort_seq_def by (induction vs) (auto simp: set_insert_seq)

lemma ensureLevelDrvrVerticies_set:
  "\<not> m_level_drvr_verticies_valid r
   \<Longrightarrow> set (m_level_drvr_verticies (ensureLevelDrvrVerticies r)) = set (graph_vertices r)"
  by (simp add: ensureLevelDrvrVerticies_def set_sort_seq)

text \<open>
  Claim C5 on the example design. \<open>ensureLevelDrvrVerticies\<close> takes every vertex of the
  graph, so the list holds the vertices of the load pins \<open>u2/A\<close> and \<open>u3/A\<close>, which
  are not drivers, after the driver \<open>u1/Z\<close>. The order is as claimed: by level, then by
  path name.
\<close>

theorem ensureLevelDrvrVerticies_all_vertices:
  "m_level_drvr_verticies (ensureLevelDrvrVerticies ex_resizer) =
     [\<lparr>level = 1, vertex_pin = (''u1'', ''Z'')\<rparr>, \<lparr>level = 2, vertex_pin = (''u2'', ''A'')\<rparr>,
      \<lparr>level = 2, vertex_pin = (''u3'', ''A'')\<rparr>]
   \<and> isDriver (m_network ex_resizer) (''u2'', ''A'') = False
   \<and> isDriver (m_network ex_resizer) (''u3'', ''A'') = False"
  by (simp add: ensureLevelDrvrVerticies_def sort_seq_def VertexLevelLess_def stringLess_def
        ex_resizer_def ex_network_def)

section \<open>Pruning at a Steiner junction\<close>

lemma ex_bufferDelay: "bufferDelay ex_resizer ex_buffer_cell c = max (- (10 ^ 30)) c"
  by (simp add: rebuffer_defs ex_design_defs)

lemma ex_bottom_up_load2:
  "rebufferBottomUp ex_resizer ex_load2 ex_steiner ex_buffer_cell = [ex_wire2, ex_buffer2]"
  by (simp add: rebuffer_defs ex_design_defs ex_sink2_def ex_wire2_def ex_buffer2_def Let_def)

lemma ex_bottom_up_load3:
  "rebufferBottomUp ex_resizer ex_load3 ex_steiner ex_buffer_cell = [ex_wire3, ex_buffer3]"
  by (simp add: rebuffer_defs ex_design_defs ex_sink3_def ex_wire3_def ex_buffer3_def Let_def)

lemma ex_junctions:
  "junctions ex_steiner [ex_wire2, ex_buffer2] [ex_wire3, ex_buffer3]
   = [ex_junction_ww, ex_junction_wb, ex_junction_bw, ex_junction_bb]"
  by (simp add: junctions_def ex_steiner_def ex_wire2_def ex_buffer2_def ex_wire3_def
        ex_buffer3_def ex_junction_ww_def ex_junction_wb_def ex_junction_bw_def ex_junction_bb_def)

lemma ex_junction_caps:
  "cap ex_junction_ww = 24" "cap ex_junction_wb = 13" "cap ex_junction_bw = 13"
  "cap ex_junction_bb = 2"
  by (simp_all add: ex_junction_ww_def ex_junction_wb_def ex_junction_bw_def ex_junction_bb_def)

lemma ex_junction_bufferRequired:
  "bufferRequired ex_junction_ww ex_buffer_cell ex_resizer = - 28"
  "bufferRequired ex_junction_wb ex_buffer_cell ex_resizer = - 17"
  "bufferRequired ex_junction_bw ex_buffer_cell ex_resizer = - 29"
  "bufferRequired ex_junction_bb ex_buffer_cell ex_resizer = - 18"
  by (simp_all add: bufferRequired_def ex_bufferDelay ex_junction_ww_def ex_junction_wb_def
        ex_junction_bw_def ex_junction_bb_def)

lemma ex_fuzzy:
  "fuzzyLess ex_resizer = sta_fuzzyLess" "fuzzyGreater ex_resizer = sta_fuzzyGreater"
  by (simp_all add: ex_resizer_def)

lemma upt_4: "[0..<4] = [0, 1, 2, 3]"
  by (simp add: upt_rec)

lemma ex_prune:
  "prune ex_resizer ex_buffer_cell
     [Some ex_junction_ww, Some ex_junction_wb, Some ex_junction_bw, Some ex_junction_bb]
   = [None, None, Some ex_junction_bw, Some ex_junction_bb]"
  by (simp add: prune_def prune_inner_def upt_4 ex_junction_caps ex_junction_bufferRequired
        ex_fuzzy sta_fuzzyLess_def sta_fuzzyGreater_def sta_fuzzyEqual_def Let_def)

lemma ex_survivors:
  "survivors [None, None, Some ex_junction_bw, Some ex_junction_bb]
   = [ex_junction_bw, ex_junction_bb]"
  by (simp add: survivors_def)

text \<open>
  Claim C6 on the example design. The inner pruning loop writes the null at index
  \<open>qi\<close>, which it increments only for entries that are not null, so once an entry is
  null \<open>qi\<close> lags behind the position of \<open>q\<close>. Here \<open>wb\<close> prunes \<open>ww\<close>; then
  \<open>bb\<close> dominates \<open>bw\<close>, and the loop nulls index 1, which is \<open>wb\<close>, instead of
  index 2. The survivors are \<open>bw\<close> and \<open>bb\<close>: \<open>bb\<close> has the strictly larger
  required time with buffer (-18 against -29) and the strictly smaller capacitance (2
  against 13), under the fuzzy comparisons, and \<open>bw\<close> is retained with it. The option
  \<open>wb\<close>, which no option dominates, is lost.
\<close>

theorem prune_keeps_dominated_option:
  "survivors (prune ex_resizer ex_buffer_cell
     (map Some (junctions ex_steiner
        (rebufferBottomUp ex_resizer ex_load2 ex_steiner ex_buffer_cell)
        (rebufferBottomUp ex_resizer ex_load3 ex_steiner ex_buffer_cell))))
   = [ex_junction_bw, ex_junction_bb]
   \<and> fuzzyLess ex_resizer (bufferRequired ex_junction_bw ex_buffer_cell ex_resizer)
                           (bufferRequired ex_junction_bb ex_buffer_cell ex_resizer)
   \<and> fuzzyGreater ex_resizer (cap ex_junction_bw) (cap ex_junction_bb)"
  by (simp add: ex_bottom_up_load2 ex_bottom_up_load3 ex_junctions ex_prune ex_survivors
        ex_junction_bufferRequired ex_junction_caps ex_fuzzy
        sta_fuzzyLess_def sta_fuzzyGreater_def sta_fuzzyEqual_def)

section \<open>The inserted buffer count\<close>

text \<open>
  What \<open>rebufferTopDown\<close> returns for a buffer option and for a junction option: 1
  whatever its subtree inserted, and the sum of the two subtrees.
\<close>

lemma rebufferTopDown_buffer:
  "type choice = buffer \<Longrightarrow> rebufferTopDown r choice net buffer_cell = Some (n, r')
   \<Longrightarrow> n = 1"
  by (cases choice) (auto simp: Let_def split: option.splits prod.splits)

lemma rebufferTopDown_junction:
  "type choice = junction \<Longrightarrow> rebufferTopDown r choice net buffer_cell = Some (n, r')
   \<Longrightarrow> \<exists>choice_ref choice_ref2 n1 r1 n2.
         ref choice = Some choice_ref \<and> ref2 choice = Some choice_ref2
         \<and> rebufferTopDown r choice_ref net buffer_cell = Some (n1, r1)
         \<and> rebufferTopDown r1 choice_ref2 net buffer_cell = Some (n2, r')
         \<and> n = n1 + n2"
  by (cases choice) (auto split: option.splits prod.splits)

lemma ex_values:
  "tree_location ex_steiner = DefPt 1 0" "tree_location ex_tree = DefPt 0 0"
  "dbuToMeters (m_network ex_resizer) d = real_of_int d"
  "m_wire_cap ex_resizer = 1" "m_wire_res ex_resizer = 1" "INF_float ex_resizer = 10 ^ 30"
  "bufferInputCapacitance ex_resizer ex_buffer_cell = 1"
  by (simp_all add: rebuffer_defs ex_design_defs)

lemma ex_junction_required:
  "required ex_junction_bw = - 16" "required ex_junction_bb = - 16"
  by (simp_all add: ex_junction_bw_def ex_junction_bb_def)

lemma ex_addWireAndBuffer_steiner:
  "addWireAndBuffer ex_resizer [ex_junction_bw, ex_junction_bb] ex_steiner ex_tree ex_buffer_cell
   = [ex_top_wire_bw, ex_top_wire_bb, ex_top_buffer]"
  by (simp add: addWireAndBuffer_def bufferRequired_def ex_bufferDelay ex_junction_caps
        ex_junction_required ex_values
        ex_fuzzy sta_fuzzyGreater_def sta_fuzzyEqual_def Let_def
        ex_top_wire_bw_def ex_top_wire_bb_def ex_top_buffer_def)

lemma ex_bottom_up_steiner:
  "rebufferBottomUp ex_resizer ex_steiner ex_tree ex_buffer_cell
   = [ex_top_wire_bw, ex_top_wire_bb, ex_top_buffer]"
proof -
  have "rebufferBottomUp ex_resizer (Pt None (DefPt 1 0) ex_load2 ex_load3) ex_tree ex_buffer_cell
    = addWireAndBuffer ex_resizer
        (survivors (prune ex_resizer ex_buffer_cell
           (map Some (junctions ex_steiner
              (rebufferBottomUp ex_resizer ex_load2 ex_steiner ex_buffer_cell)
              (rebufferBottomUp ex_resizer ex_load3 ex_steiner ex_buffer_cell)))))
        ex_steiner ex_tree ex_buffer_cell"
    by (simp add: Let_def ex_steiner_def)
  then show ?thesis
    by (simp add: ex_bottom_up_load2 ex_bottom_up_load3 ex_junctions ex_prune ex_survivors
          ex_addWireAndBuffer_steiner)
       (simp add: ex_steiner_def)
qed

lemma ex_gateDelay: "gateDelay ex_resizer ex_drvr_port c = max (- (10 ^ 30)) (5 * c)"
  by (simp add: rebuffer_defs ex_design_defs ex_drvr_port_def)

lemma ex_top_values:
  "cap ex_top_wire_bw = 14" "required ex_top_wire_bw = - 17"
  "cap ex_top_wire_bb = 3" "required ex_top_wire_bb = - 17"
  "cap ex_top_buffer = 1" "required ex_top_buffer = - 20"
  by (simp_all add: ex_top_wire_bw_def ex_top_wire_bb_def ex_top_buffer_def)

lemma ex_rebuffer_iter:
  "rebuffer_iter ex_resizer (Some ex_drvr_port) [ex_top_wire_bw, ex_top_wire_bb, ex_top_buffer]
     (- INF_float ex_resizer, None) = Some (- 25, Some ex_top_buffer)"
  by (simp add: ex_gateDelay ex_top_values ex_values ex_fuzzy sta_fuzzyGreater_def
        sta_fuzzyEqual_def Let_def)

lemma string_of_int_123:
  "string_of_int 1 = ''1''" "string_of_int 2 = ''2''" "string_of_int 3 = ''3''"
  by (simp_all add: string_of_int_def)

lemmas mutator_defs =
  makeUniqueNetName_def makeUniqueBufferName_def findNet_def findInstance_def
  makeNet_def makeInstance_def connectPin_def disconnectPin_def setLocation_def
  makeNetParasitics_def

lemma ex_rebufferTopDown:
  "map_option (\<lambda>res. (fst res, buffer_report (snd res)))
     (rebufferTopDown ex_resizer ex_top_buffer (Some ''n1'') ex_buffer_cell)
   = Some (1, [''u1'', ''u2'', ''u3'', ''buffer1'', ''buffer2'', ''buffer3''], 0, 0)"
  by (simp add: ex_top_buffer_def ex_junction_bb_def ex_buffer2_def ex_buffer3_def ex_sink2_def
        ex_sink3_def mutator_defs makeUniqueNetName_loop.simps makeUniqueBufferName_loop.simps
        string_of_int_123 ex_resizer_def ex_network_def ex_buffer_cell_def ex_port_def Let_def
        buffer_report_def)

lemma ex_rebuffer_setup:
  "isTopLevelPort (m_network ex_resizer) (''u1'', ''Z'') = False"
  "pin_net (m_network ex_resizer) (''u1'', ''Z'') = Some ''n1''"
  "libertyPort (m_network ex_resizer) (''u1'', ''Z'') = Some ex_drvr_port"
  "makeSteinerTree ex_resizer (Some ''n1'') = Some ex_tree"
  "fuzzyInf ex_resizer (pinRequired ex_resizer (''u1'', ''Z'')) = False"
  "tree_left ex_tree = ex_steiner"
  by (simp_all add: ex_resizer_def ex_network_def ex_drvr_port_def ex_tree_def
        sta_fuzzyInf_def sta_fuzzyEqual_def)

text \<open>
  Claim C2 on the example design. Rebuffering the driver \<open>u1/Z\<close> chooses the buffer
  option at the driver, whose ref is the junction \<open>bb\<close> of two buffer options: the
  top-down pass creates the three buffer instances \<open>buffer1\<close>, \<open>buffer2\<close> and
  \<open>buffer3\<close>, and the inserted-buffer counter, which the report prints, is 1. The
  buffer case of \<open>rebufferTopDown\<close> drops the count of the recursion on its ref and
  returns 1.
\<close>

theorem rebuffer_reports_one_of_three:
  "map_option buffer_report (rebuffer ex_resizer (''u1'', ''Z'') ex_buffer_cell)
   = Some ([''u1'', ''u2'', ''u3'', ''buffer1'', ''buffer2'', ''buffer3''], 1, 1)"
proof -
  from ex_rebufferTopDown obtain r1 where
    run: "rebufferTopDown ex_resizer ex_top_buffer (Some ''n1'') ex_buffer_cell = Some (1, r1)"
    and report: "buffer_report r1
                 = ([''u1'', ''u2'', ''u3'', ''buffer1'', ''buffer2'', ''buffer3''], 0, 0)"
    by (cases "rebufferTopDown ex_resizer ex_top_buffer (Some ''n1'') ex_buffer_cell") auto
  have tree: "ex_tree \<noteq> null_pt"
    by (simp add: ex_tree_def)
  have "rebuffer ex_resizer (''u1'', ''Z'') ex_buffer_cell
        = Some (r1\<lparr>m_inserted_buffer_count := m_inserted_buffer_count r1 + 1,
                   m_rebuffer_net_count := m_rebuffer_net_count r1 + 1\<rparr>)"
    unfolding rebuffer_def
    by (simp add: ex_rebuffer_setup Let_def SteinerPt.case_eq_if tree ex_bottom_up_steiner
          ex_rebuffer_iter run del: rebuffer_iter.simps)
  with report show ?thesis by (simp add: buffer_report_def)
qed

end
